theory Spec2Isabelle
  imports Main "HOL-Library.Word" "HOL-Library.Char_ord" "HOL-Library.List_Lexorder"
begin

section \<open>Python values\<close>

text \<open>
  Text is a \<^typ>\<open>string\<close>: a list of 8-bit characters, so the model covers Python strings
  whose code points are below 256 (exactly the strings the \<open>latin1\<close> codec produces).
  A byte is an 8-bit word. The exceptions the two programs can meet are the
  \<open>UnicodeDecodeError\<close> that \<open>_compare_files\<close> catches by name, the \<open>IndexError\<close> of
  \<open>line[0]\<close> on an empty string, the \<open>KeyError\<close> of a dictionary lookup, and any other
  subclass of \<open>Exception\<close>, kept with the name of its class. Exceptions outside \<open>Exception\<close> (\<open>KeyboardInterrupt\<close>, \<open>SystemExit\<close>) are not
  modelled.
\<close>

type_synonym byte = "8 word"

datatype exn = UnicodeDecodeError | IndexError | KeyError | OtherException string

section \<open>The difference classifier: \<open>_analyze_differences\<close>\<close>

text \<open>
  The dictionaries \<open>{'type': ..., 'line': ..., 'content': ...}\<close> appended by the classifier.
  The four values of \<open>'type'\<close> are Chinese words in the source: \<open>KRemoved\<close> is the word for
  a deleted line, \<open>KAdded\<close> for an added line, \<open>KChanged\<close> for a changed line and
  \<open>KChangedContent\<close> for the content after the change. The field \<open>'line'\<close> is an integer, or
  the empty string \<open>''\<close> for a \<open>KChangedContent\<close> record: \<^term>\<open>None\<close> here.
\<close>

datatype kind = KRemoved | KAdded | KChanged | KChangedContent

record diff_rec =
  type :: kind
  line :: "int option"
  content :: string

text \<open>\<open>s.rstrip('\n')\<close>: every trailing newline character is removed.\<close>

definition rstrip_nl :: "string \<Rightarrow> string" where
  "rstrip_nl s = rev (dropWhile (\<lambda>c. c = CHR 0x0A) (rev s))"

text \<open>
  One iteration of \<open>for line in diff\<close>, on the state \<open>(differences, line_num)\<close>.
  \<open>line.startswith('  ')\<close> is \<open>take 2 ln = ''  ''\<close>; \<open>line[0]\<close> raises \<open>IndexError\<close> on
  the empty string; \<open>line[2:]\<close> is \<open>drop 2 ln\<close>. A line whose first character is none of
  \<open>-\<close>, \<open>+\<close>, \<open>?\<close> falls through the \<open>if/elif\<close> chain and changes nothing.
\<close>

definition analyze_step :: "string \<Rightarrow> diff_rec list \<times> int \<Rightarrow> exn + diff_rec list \<times> int" where
  "analyze_step ln st =
     (case st of (differences, line_num) \<Rightarrow>
        if take 2 ln = ''  '' then Inr (differences, line_num + 1)
        else
          (case ln of
             [] \<Rightarrow> Inl IndexError
           | prefix # _ \<Rightarrow>
               if prefix = CHR ''-'' then
                 Inr (differences @
                        [\<lparr>type = KRemoved, line = Some (line_num + 1),
                          content = rstrip_nl (drop 2 ln)\<rparr>],
                      line_num)
               else if prefix = CHR ''+'' then
                 Inr (differences @
                        [\<lparr>type = KAdded, line = Some (line_num + 1),
                          content = rstrip_nl (drop 2 ln)\<rparr>],
                      line_num + 1)
               else if prefix = CHR ''?'' then
                 (if differences \<noteq> [] \<and> type (last differences) = KRemoved then
                    Inr (butlast differences @
                           [(last differences)\<lparr>type := KChanged\<rparr>,
                            \<lparr>type = KChangedContent, line = None,
                             content = rstrip_nl (drop 2 ln)\<rparr>],
                         line_num)
                  else Inr (differences, line_num))
               else Inr (differences, line_num)))"

fun analyze_loop :: "string list \<Rightarrow> diff_rec list \<times> int \<Rightarrow> exn + diff_rec list \<times> int" where
  "analyze_loop [] st = Inr st"
| "analyze_loop (ln # rest) st =
     (case analyze_step ln st of Inl e \<Rightarrow> Inl e | Inr st' \<Rightarrow> analyze_loop rest st')"

text \<open>\<open>_analyze_differences\<close>: the loop from \<open>differences = []\<close>, \<open>line_num = 0\<close>; only
  \<open>differences\<close> is returned.\<close>

definition analyze_differences :: "string list \<Rightarrow> exn + diff_rec list" where
  "analyze_differences diff =
     (case analyze_loop diff ([], 0) of
        Inl e \<Rightarrow> Inl e
      | Inr (differences, line_num) \<Rightarrow> Inr differences)"

section \<open>Alignment records\<close>

text \<open>
  An alignment record is a tag and a payload. \<open>difflib.Differ.compare\<close> yields each record
  as one string: the tag's character, a space, the payload (\<open>'  '\<close>, \<open>'- '\<close>, \<open>'+ '\<close>,
  \<open>'? '\<close> followed by the line).
\<close>

datatype tag = Common | Removed | Added | Hint

fun tag_char :: "tag \<Rightarrow> char" where
  "tag_char Common = CHR '' ''"
| "tag_char Removed = CHR ''-''"
| "tag_char Added = CHR ''+''"
| "tag_char Hint = CHR ''?''"

definition render :: "tag \<times> string \<Rightarrow> string" where
  "render r = tag_char (fst r) # CHR '' '' # snd r"

text \<open>
  Modelled from the spec: the Line Aligner. The source calls \<open>difflib.Differ().compare\<close>,
  library code that is not under src/. Following section 4.1 of the specification:
  an edit script from a longest common subsequence (equal lines at the same relative
  position are Common, lines only in the first sequence Removed, lines only in the second
  Added, nothing reordered), and a Hint placed immediately after a Removed/Added pair of
  adjacent records whose lines are similar enough. The similarity test \<open>sim\<close> and the
  text of the annotation \<open>ann\<close> are left open by the specification and are parameters.
\<close>

fun common_count :: "(tag \<times> string) list \<Rightarrow> nat" where
  "common_count [] = 0"
| "common_count (r # rs) = (if fst r = Common then 1 else 0) + common_count rs"

fun align_lcs :: "string list \<Rightarrow> string list \<Rightarrow> (tag \<times> string) list" where
  "align_lcs [] ys = map (Pair Added) ys"
| "align_lcs xs [] = map (Pair Removed) xs"
| "align_lcs (x # xs) (y # ys) =
     (if x = y then (Common, x) # align_lcs xs ys
      else
        (let del = (Removed, x) # align_lcs xs (y # ys);
             ins = (Added, y) # align_lcs (x # xs) ys
         in if common_count ins \<le> common_count del then del else ins))"

fun add_hints ::
  "(string \<Rightarrow> string \<Rightarrow> bool) \<Rightarrow> (string \<Rightarrow> string \<Rightarrow> string) \<Rightarrow>
   (tag \<times> string) list \<Rightarrow> (tag \<times> string) list" where
  "add_hints sim ann [] = []"
| "add_hints sim ann [r] = [r]"
| "add_hints sim ann (r # r' # rs) =
     (if fst r = Removed \<and> fst r' = Added \<and> sim (snd r) (snd r')
      then r # r' # (Hint, ann (snd r) (snd r')) # add_hints sim ann rs
      else r # add_hints sim ann (r' # rs))"

definition align ::
  "(string \<Rightarrow> string \<Rightarrow> bool) \<Rightarrow> (string \<Rightarrow> string \<Rightarrow> string) \<Rightarrow>
   string list \<Rightarrow> string list \<Rightarrow> (tag \<times> string) list" where
  "align sim ann lines1 lines2 = add_hints sim ann (align_lcs lines1 lines2)"

section \<open>The environment: file system, codecs and \<open>difflib\<close>\<close>

text \<open>
  What the programs call outside the repository is a parameter of the model, a record
  of functions: \<open>os.listdir\<close>, \<open>os.path.isdir\<close>, \<open>os.path.exists\<close>, \<open>os.path.join\<close>,
  \<open>os.path.basename\<close>; \<open>open\<close>, giving the bytes of the file or the exception it raises;
  \<open>readlines()\<close> of a file opened with \<open>encoding='utf-8'\<close>, giving the decoded lines or
  raising (\<open>UnicodeDecodeError\<close> on bytes that are not UTF-8); and
  \<open>list(difflib.Differ().compare(lines1, lines2))\<close>, giving the strings of the alignment
  or raising. A line handed to \<open>compare\<close> is a \<open>str\<close> or a \<open>bytes\<close> object.
\<close>

type_synonym path = string

datatype pyline = Str string | Bytes "byte list"

record pyenv =
  listdir :: "path \<Rightarrow> exn + string list"
  isdir :: "path \<Rightarrow> bool"
  path_exists :: "path \<Rightarrow> bool"
  path_join :: "path \<Rightarrow> string \<Rightarrow> path"
  basename :: "path \<Rightarrow> string"
  open_file :: "path \<Rightarrow> exn + byte list"
  readlines_utf8 :: "byte list \<Rightarrow> exn + string list"
  differ_compare :: "pyline list \<Rightarrow> pyline list \<Rightarrow> exn + string list"

text \<open>\<open>readlines()\<close> of a file opened with mode \<open>'rb'\<close> (and iteration over it): the bytes are
  cut after every byte \<open>0x0A\<close>; a last line without one is kept.\<close>

fun readlines_acc :: "byte list \<Rightarrow> byte list \<Rightarrow> byte list list" where
  "readlines_acc cur [] = (if cur = [] then [] else [cur])"
| "readlines_acc cur (b # bs) =
     (if b = 0x0A then (cur @ [b]) # readlines_acc [] bs else readlines_acc (cur @ [b]) bs)"

definition readlines_rb :: "byte list \<Rightarrow> byte list list" where
  "readlines_rb bs = readlines_acc [] bs"

text \<open>\<open>line.decode('latin1')\<close>: every byte is the character of the same code; it never fails.\<close>

definition decode_latin1 :: "byte list \<Rightarrow> string" where
  "decode_latin1 bs = map (\<lambda>b. char_of (unat b)) bs"

text \<open>The errors written with \<open>logger.error\<close>. Only records of level ERROR are kept in the
  model's log; the calls of \<open>logger.info\<close> change nothing that is returned.\<close>

datatype error_log =
    NoFilePairsFound path
  | FolderError string exn
  | NoSubfoldersFound path
  | ProcessingError exn

section \<open>\<open>Compare_txt.py\<close>\<close>

record file_pair =
  folder :: string
  folder_path :: path
  file1 :: path
  file2 :: path

text \<open>\<open>_find_file_pairs\<close>: the subfolders, in listing order, that hold both named files.\<close>

definition find_file_pairs :: "pyenv \<Rightarrow> path \<Rightarrow> string \<Rightarrow> string \<Rightarrow> exn + file_pair list" where
  "find_file_pairs env parent_dir file1_name file2_name =
     (case listdir env parent_dir of
        Inl e \<Rightarrow> Inl e
      | Inr names \<Rightarrow>
          Inr (concat (map (\<lambda>fld.
                 let fld_path = path_join env parent_dir fld in
                 if \<not> isdir env fld_path then []
                 else
                   (let file1_path = path_join env fld_path file1_name;
                        file2_path = path_join env fld_path file2_name
                    in if path_exists env file1_path \<and> path_exists env file2_path
                       then [\<lparr>folder = fld, folder_path = fld_path,
                              file1 = file1_path, file2 = file2_path\<rparr>]
                       else [])) names)))"

text \<open>The body of the \<open>try\<close> in \<open>_compare_files\<close>: both files are opened, then read as UTF-8.\<close>

definition read_utf8 :: "pyenv \<Rightarrow> path \<Rightarrow> path \<Rightarrow> exn + string list \<times> string list" where
  "read_utf8 env f1 f2 =
     (case open_file env f1 of
        Inl e \<Rightarrow> Inl e
      | Inr b1 \<Rightarrow>
          (case open_file env f2 of
             Inl e \<Rightarrow> Inl e
           | Inr b2 \<Rightarrow>
               (case readlines_utf8 env b1 of
                  Inl e \<Rightarrow> Inl e
                | Inr lines1 \<Rightarrow>
                    (case readlines_utf8 env b2 of
                       Inl e \<Rightarrow> Inl e
                     | Inr lines2 \<Rightarrow> Inr (lines1, lines2)))))"

text \<open>The handler of \<open>except UnicodeDecodeError\<close>: both files are opened again in binary mode.\<close>

definition read_binary :: "pyenv \<Rightarrow> path \<Rightarrow> path \<Rightarrow> exn + byte list list \<times> byte list list" where
  "read_binary env f1 f2 =
     (case open_file env f1 of
        Inl e \<Rightarrow> Inl e
      | Inr b1 \<Rightarrow>
          (case open_file env f2 of
             Inl e \<Rightarrow> Inl e
           | Inr b2 \<Rightarrow> Inr (readlines_rb b1, readlines_rb b2)))"

text \<open>\<open>lines1\<close>, \<open>lines2\<close> of \<open>_compare_files\<close> in \<open>Compare_txt.py\<close>: after a
  \<open>UnicodeDecodeError\<close> they are the \<open>bytes\<close> objects of \<open>readlines()\<close>, not decoded.\<close>

definition read_lines_txt :: "pyenv \<Rightarrow> path \<Rightarrow> path \<Rightarrow> exn + pyline list \<times> pyline list" where
  "read_lines_txt env f1 f2 =
     (case read_utf8 env f1 f2 of
        Inr (lines1, lines2) \<Rightarrow> Inr (map Str lines1, map Str lines2)
      | Inl UnicodeDecodeError \<Rightarrow>
          (case read_binary env f1 f2 of
             Inl e \<Rightarrow> Inl e
           | Inr (lines1, lines2) \<Rightarrow> Inr (map Bytes lines1, map Bytes lines2))
      | Inl e \<Rightarrow> Inl e)"

definition compare_files_txt :: "pyenv \<Rightarrow> path \<Rightarrow> path \<Rightarrow> exn + string list \<times> nat \<times> nat" where
  "compare_files_txt env f1 f2 =
     (case read_lines_txt env f1 f2 of
        Inl e \<Rightarrow> Inl e
      | Inr (lines1, lines2) \<Rightarrow>
          (case differ_compare env lines1 lines2 of
             Inl e \<Rightarrow> Inl e
           | Inr diff \<Rightarrow> Inr (diff, length lines1, length lines2)))"

text \<open>\<open>_compare_file_pair\<close>: the \<open>try\<close> block reads, aligns and classifies; \<open>except Exception\<close>
  logs the error and returns \<open>(False, -1)\<close>. The result is the log written, \<open>is_identical\<close>
  and the number of differences.\<close>

definition compare_file_pair :: "pyenv \<Rightarrow> file_pair \<Rightarrow> error_log list \<times> bool \<times> int" where
  "compare_file_pair env pair =
     (case (case compare_files_txt env (file1 pair) (file2 pair) of
              Inl e \<Rightarrow> Inl e
            | Inr (diff_result, file1_lines, file2_lines) \<Rightarrow> analyze_differences diff_result) of
        Inl e \<Rightarrow> ([FolderError (folder pair) e], False, - 1)
      | Inr differences \<Rightarrow>
          if differences = [] then ([], True, 0)
          else ([], False, int (length differences)))"

record detail =
  d_folder :: string
  is_identical :: bool
  d_differences :: int
  d_file1 :: path
  d_file2 :: path

record results =
  total_folders :: int
  identical_count :: int
  different_count :: int
  error_count :: int
  total_differences :: int
  different_folders :: "string list"
  details :: "detail list"

text \<open>One iteration of \<open>for pair in file_pairs\<close> in \<open>run\<close>, on the log and \<open>results\<close>.\<close>

definition run_step :: "pyenv \<Rightarrow> error_log list \<times> results \<Rightarrow> file_pair \<Rightarrow> error_log list \<times> results" where
  "run_step env acc pair =
     (case acc of (log, res) \<Rightarrow>
        (case compare_file_pair env pair of (written, is_id, diff_count) \<Rightarrow>
           (let res1 = res\<lparr>details := details res @
                          [\<lparr>d_folder = folder pair, is_identical = is_id,
                            d_differences = diff_count,
                            d_file1 = file1 pair, d_file2 = file2 pair\<rparr>]\<rparr>
            in (log @ written,
                if is_id then res1\<lparr>identical_count := identical_count res1 + 1\<rparr>
                else if diff_count > 0 then
                  res1\<lparr>different_count := different_count res1 + 1,
                       total_differences := total_differences res1 + diff_count,
                       different_folders := different_folders res1 @ [folder pair]\<rparr>
                else res1\<lparr>error_count := error_count res1 + 1\<rparr>))))"

text \<open>\<open>run\<close>: \<open>None\<close> with an error in the log when no file pair was found, otherwise the
  summary. An exception of \<open>os.listdir\<close> on the parent directory is not caught.\<close>

definition run_txt :: "pyenv \<Rightarrow> path \<Rightarrow> string \<Rightarrow> string \<Rightarrow> exn + error_log list \<times> results option" where
  "run_txt env parent_dir file1_name file2_name =
     (case find_file_pairs env parent_dir file1_name file2_name of
        Inl e \<Rightarrow> Inl e
      | Inr file_pairs \<Rightarrow>
          if file_pairs = [] then Inr ([NoFilePairsFound parent_dir], None)
          else
            (case foldl (run_step env)
                    ([], \<lparr>total_folders = int (length file_pairs), identical_count = 0,
                           different_count = 0, error_count = 0, total_differences = 0,
                           different_folders = [], details = []\<rparr>) file_pairs of
               (log, res) \<Rightarrow> Inr (log, Some res)))"

section \<open>\<open>Compare_nc_txt.py\<close>\<close>

text \<open>\<open>str.lower()\<close> on characters below 256: the letters \<open>A\<close> to \<open>Z\<close> and the capital
  letters of Latin-1 (codes 192 to 222 but the multiplication sign 215) move up by 32.\<close>

definition lower_char :: "char \<Rightarrow> char" where
  "lower_char c =
     (let n = (of_char c :: nat)
      in if (65 \<le> n \<and> n \<le> 90) \<or> (192 \<le> n \<and> n \<le> 222 \<and> n \<noteq> 215)
         then char_of (n + 32) else c)"

definition py_lower :: "string \<Rightarrow> string" where
  "py_lower s = map lower_char s"

definition endswith :: "string \<Rightarrow> string \<Rightarrow> bool" where
  "endswith s suf = (take (length suf) (rev s) = rev suf)"

text \<open>\<open>__init__\<close>: \<open>self.file_exts = [ext.lower() for ext in file_exts]\<close>.\<close>

definition init_file_exts :: "string list \<Rightarrow> string list" where
  "init_file_exts file_exts = map py_lower file_exts"

text \<open>
  A dictionary that keeps insertion order, as an association list: storing under a key
  that is present replaces the value in place.
\<close>

fun dict_set :: "'k \<Rightarrow> 'v \<Rightarrow> ('k \<times> 'v) list \<Rightarrow> ('k \<times> 'v) list" where
  "dict_set k v [] = [(k, v)]"
| "dict_set k v (p # d) = (if fst p = k then (k, v) # d else p # dict_set k v d)"

record folder_info =
  fi_folder_path :: path
  files_by_ext :: "(string \<times> path list) list"

text \<open>
  \<open>ext_files\<close> of \<open>_find_files\<close> for one folder: a file goes to the first extension of
  \<open>file_exts\<close> that its lower-cased name ends with (the \<open>break\<close>), in listing order, and
  each list is then sorted. The dictionary is read with \<^const>\<open>map_of\<close>; a repeated
  extension repeats its entry.
\<close>

definition ext_files :: "pyenv \<Rightarrow> string list \<Rightarrow> path \<Rightarrow> string list \<Rightarrow> (string \<times> path list) list" where
  "ext_files env file_exts fld_path files =
     map (\<lambda>ext. (ext,
            sort (map (path_join env fld_path)
                   (filter (\<lambda>file. find (endswith (py_lower file)) file_exts = Some ext) files))))
         file_exts"

text \<open>\<open>_find_files\<close>: every subfolder of the parent directory gets an entry, whatever it
  holds. An exception of \<open>os.listdir\<close> is not caught.\<close>

fun find_files_loop ::
  "pyenv \<Rightarrow> path \<Rightarrow> string list \<Rightarrow> string list \<Rightarrow> (string \<times> folder_info) list \<Rightarrow>
   exn + (string \<times> folder_info) list" where
  "find_files_loop env parent_dir file_exts [] file_groups = Inr file_groups"
| "find_files_loop env parent_dir file_exts (fld # rest) file_groups =
     (let fld_path = path_join env parent_dir fld in
      if \<not> isdir env fld_path then find_files_loop env parent_dir file_exts rest file_groups
      else
        (case listdir env fld_path of
           Inl e \<Rightarrow> Inl e
         | Inr files \<Rightarrow>
             find_files_loop env parent_dir file_exts rest
               (dict_set fld
                  \<lparr>fi_folder_path = fld_path,
                   files_by_ext = ext_files env file_exts fld_path files\<rparr>
                  file_groups)))"

definition find_files :: "pyenv \<Rightarrow> path \<Rightarrow> string list \<Rightarrow> exn + (string \<times> folder_info) list" where
  "find_files env parent_dir file_exts =
     (case listdir env parent_dir of
        Inl e \<Rightarrow> Inl e
      | Inr names \<Rightarrow> find_files_loop env parent_dir file_exts names [])"

text \<open>\<open>lines1\<close>, \<open>lines2\<close> of \<open>_compare_files\<close> in \<open>Compare_nc_txt.py\<close>: after a
  \<open>UnicodeDecodeError\<close> the lines read in binary mode are decoded as \<open>latin1\<close>.\<close>

definition read_lines_nc :: "pyenv \<Rightarrow> path \<Rightarrow> path \<Rightarrow> exn + pyline list \<times> pyline list" where
  "read_lines_nc env f1 f2 =
     (case read_utf8 env f1 f2 of
        Inr (lines1, lines2) \<Rightarrow> Inr (map Str lines1, map Str lines2)
      | Inl UnicodeDecodeError \<Rightarrow>
          (case read_binary env f1 f2 of
             Inl e \<Rightarrow> Inl e
           | Inr (lines1, lines2) \<Rightarrow>
               Inr (map (\<lambda>l. Str (decode_latin1 l)) lines1,
                    map (\<lambda>l. Str (decode_latin1 l)) lines2))
      | Inl e \<Rightarrow> Inl e)"

definition compare_files_nc :: "pyenv \<Rightarrow> path \<Rightarrow> path \<Rightarrow> exn + string list \<times> nat \<times> nat" where
  "compare_files_nc env f1 f2 =
     (case read_lines_nc env f1 f2 of
        Inl e \<Rightarrow> Inl e
      | Inr (lines1, lines2) \<Rightarrow>
          (case differ_compare env lines1 lines2 of
             Inl e \<Rightarrow> Inl e
           | Inr diff \<Rightarrow> Inr (diff, length lines1, length lines2)))"

text \<open>
  The three dictionaries \<open>_compare_in_folder\<close> appends to \<open>comparison_results\<close>, by their
  \<open>'status'\<close>: \<open>'identical'\<close> and \<open>'different'\<close> hold \<open>file1\<close>, \<open>file2\<close>, \<open>ext\<close> and
  \<open>differences\<close>; \<open>'error'\<close> holds \<open>error\<close> and \<open>ext\<close>, and no \<open>differences\<close>.
\<close>

datatype comparison =
    Identical string string string int
  | Different string string string int
  | Error exn string

record different_file =
  df_folder :: string
  df_file1 :: string
  df_file2 :: string
  df_ext :: string
  df_differences :: int

text \<open>The comparison of the first two files of one extension: the \<open>try\<close> block and its
  \<open>except Exception\<close>. The result is the log written, what is appended to
  \<open>self.different_files\<close>, and the dictionary appended to \<open>comparison_results\<close>.\<close>

definition compare_ext ::
  "pyenv \<Rightarrow> string \<Rightarrow> string \<Rightarrow> path \<Rightarrow> path \<Rightarrow>
   error_log list \<times> different_file list \<times> comparison" where
  "compare_ext env fld ext f1 f2 =
     (let file1_name = basename env f1; file2_name = basename env f2 in
      case (case compare_files_nc env f1 f2 of
              Inl e \<Rightarrow> Inl e
            | Inr (diff_result, file1_lines, file2_lines) \<Rightarrow> analyze_differences diff_result) of
        Inl e \<Rightarrow> ([ProcessingError e], [], Error e ext)
      | Inr differences \<Rightarrow>
          if differences = [] then ([], [], Identical file1_name file2_name ext 0)
          else ([],
                [\<lparr>df_folder = fld, df_file1 = file1_name, df_file2 = file2_name,
                  df_ext = ext, df_differences = int (length differences)\<rparr>],
                Different file1_name file2_name ext (int (length differences))))"

text \<open>\<open>for ext in self.file_exts\<close> in \<open>_compare_in_folder\<close>. The lookup
  \<open>files_by_ext[ext]\<close> is outside the \<open>try\<close>: its \<open>KeyError\<close> is not caught. Fewer than two
  files: \<open>continue\<close>.\<close>

fun compare_exts ::
  "pyenv \<Rightarrow> string \<Rightarrow> (string \<times> path list) list \<Rightarrow> string list \<Rightarrow>
   error_log list \<times> different_file list \<times> comparison list \<Rightarrow>
   exn + error_log list \<times> different_file list \<times> comparison list" where
  "compare_exts env fld fbe [] acc = Inr acc"
| "compare_exts env fld fbe (ext # exts) (log, dfs, comparison_results) =
     (case map_of fbe ext of
        None \<Rightarrow> Inl KeyError
      | Some files \<Rightarrow>
          (case files of
             f1 # f2 # _ \<Rightarrow>
               (case compare_ext env fld ext f1 f2 of
                  (written, new_dfs, result) \<Rightarrow>
                    compare_exts env fld fbe exts
                      (log @ written, dfs @ new_dfs, comparison_results @ [result]))
           | _ \<Rightarrow> compare_exts env fld fbe exts (log, dfs, comparison_results)))"

record folder_result =
  comparisons :: "comparison list"
  fr_folder :: string

text \<open>\<open>_compare_in_folder\<close>, on the log and \<open>self.different_files\<close>.\<close>

definition compare_in_folder ::
  "pyenv \<Rightarrow> string list \<Rightarrow> string \<Rightarrow> folder_info \<Rightarrow> error_log list \<times> different_file list \<Rightarrow>
   exn + (error_log list \<times> different_file list) \<times> folder_result" where
  "compare_in_folder env file_exts fld info st =
     (case st of (log, dfs) \<Rightarrow>
        (case compare_exts env fld (files_by_ext info) file_exts (log, dfs, []) of
           Inl e \<Rightarrow> Inl e
         | Inr (log', dfs', comparison_results) \<Rightarrow>
             Inr ((log', dfs'), \<lparr>comparisons = comparison_results, fr_folder = fld\<rparr>)))"

record nc_results =
  nc_total_folders :: int
  compared_pairs :: int
  identical_pairs :: int
  different_pairs :: int
  error_pairs :: int
  nc_total_differences :: int
  different_files :: "different_file list"
  nc_details :: "folder_result list"

text \<open>One iteration of \<open>for comp in result['comparisons']\<close> in \<open>run\<close>.\<close>

definition tally :: "string \<Rightarrow> nc_results \<Rightarrow> comparison \<Rightarrow> nc_results" where
  "tally fld res cmp =
     (let res1 = res\<lparr>compared_pairs := compared_pairs res + 1\<rparr> in
      case cmp of
        Identical f1 f2 ext n \<Rightarrow> res1\<lparr>identical_pairs := identical_pairs res1 + 1\<rparr>
      | Different f1 f2 ext n \<Rightarrow>
          res1\<lparr>different_pairs := different_pairs res1 + 1,
               nc_total_differences := nc_total_differences res1 + n,
               different_files := different_files res1 @
                 [\<lparr>df_folder = fld, df_file1 = f1, df_file2 = f2, df_ext = ext,
                   df_differences = n\<rparr>]\<rparr>
      | Error e ext \<Rightarrow> res1\<lparr>error_pairs := error_pairs res1 + 1\<rparr>)"

text \<open>\<open>for folder, folder_info in file_groups.items()\<close> in \<open>run\<close>.\<close>

fun run_nc_loop ::
  "pyenv \<Rightarrow> string list \<Rightarrow> (string \<times> folder_info) list \<Rightarrow>
   (error_log list \<times> different_file list) \<times> nc_results \<Rightarrow>
   exn + (error_log list \<times> different_file list) \<times> nc_results" where
  "run_nc_loop env file_exts [] acc = Inr acc"
| "run_nc_loop env file_exts (g # rest) (st, res) =
     (case compare_in_folder env file_exts (fst g) (snd g) st of
        Inl e \<Rightarrow> Inl e
      | Inr (st', result) \<Rightarrow>
          run_nc_loop env file_exts rest
            (st', foldl (tally (fst g)) (res\<lparr>nc_details := nc_details res @ [result]\<rparr>)
                    (comparisons result)))"

text \<open>\<open>run\<close>: \<open>None\<close> with an error in the log when the parent directory has no
  subfolder, otherwise the summary.\<close>

definition run_nc :: "pyenv \<Rightarrow> path \<Rightarrow> string list \<Rightarrow> exn + error_log list \<times> nc_results option" where
  "run_nc env parent_dir file_exts =
     (case find_files env parent_dir file_exts of
        Inl e \<Rightarrow> Inl e
      | Inr file_groups \<Rightarrow>
          if file_groups = [] then Inr ([NoSubfoldersFound parent_dir], None)
          else
            (case run_nc_loop env file_exts file_groups
                    (([], []),
                     \<lparr>nc_total_folders = int (length file_groups), compared_pairs = 0,
                       identical_pairs = 0, different_pairs = 0, error_pairs = 0,
                       nc_total_differences = 0, different_files = [], nc_details = []\<rparr>) of
               Inl e \<Rightarrow> Inl e
             | Inr ((log, dfs), res) \<Rightarrow> Inr (log, Some res)))"

section \<open>A test environment\<close>

text \<open>
  A small concrete environment for evaluating the programs. Paths are joined with \<open>/\<close>.
  Under \<open>root\<close>: folder \<open>a\<close> holds two equal files, folder \<open>b\<close> two files that differ in
  one line, in folder \<open>c\<close> the name \<open>file1.txt\<close> is a directory, so that \<open>open\<close> raises;
  \<open>readme.txt\<close> is a plain file. Under \<open>bare\<close> there is one empty subfolder and a plain
  file; \<open>flat\<close> holds only a plain file. The two files under \<open>legacy\<close> hold one line
  each, equal but for one letter, that starts with the byte \<open>0xFF\<close>, which is not UTF-8.
  The reader \<open>ascii_readlines\<close> stands for the UTF-8 reader on the contents used here
  (7-bit text without carriage returns, where both give the same lines, and contents with
  the byte \<open>0xFF\<close>, where both raise).
\<close>

definition test_join :: "path \<Rightarrow> string \<Rightarrow> path" where
  "test_join p n = p @ ''/'' @ n"

definition test_basename :: "path \<Rightarrow> string" where
  "test_basename p = rev (takeWhile (\<lambda>c. c \<noteq> CHR ''/'') (rev p))"

definition ascii_readlines :: "byte list \<Rightarrow> exn + string list" where
  "ascii_readlines bs =
     (if list_all (\<lambda>b. b < 0x80) bs then Inr (map decode_latin1 (readlines_rb bs))
      else Inl UnicodeDecodeError)"

text \<open>
  The stand-in for \<open>difflib\<close> is a table: what \<open>list(difflib.Differ().compare(...))\<close>
  gives on the four pairs of line lists that the files of the test environment produce.
  Two equal lines \<open>x\<close>: one Common record. The lines \<open>x\<close>, \<open>y\<close> against \<open>x\<close>: a Common
  and a Removed record. The two similar text lines of \<open>legacy\<close>, decoded as \<open>latin1\<close>: a
  Removed record, its hint, an Added record, its hint. The same two lines as \<open>bytes\<close>
  objects: the intraline comparison raises \<open>AttributeError\<close> (\<open>difflib\<close> of CPython 3.11).
  Any other input is outside
  the table and gets an exception of its own, \<open>NotRecorded\<close>.
\<close>

definition test_differ :: "pyline list \<Rightarrow> pyline list \<Rightarrow> exn + string list" where
  "test_differ lines1 lines2 =
     (if lines1 = [Str [CHR ''x'', CHR 0x0A]] \<and> lines2 = [Str [CHR ''x'', CHR 0x0A]]
        then Inr [[CHR '' '', CHR '' '', CHR ''x'', CHR 0x0A]]
      else if lines1 = [Str [CHR ''x'', CHR 0x0A], Str [CHR ''y'', CHR 0x0A]] \<and>
              lines2 = [Str [CHR ''x'', CHR 0x0A]]
        then Inr [[CHR '' '', CHR '' '', CHR ''x'', CHR 0x0A],
                  [CHR ''-'', CHR '' '', CHR ''y'', CHR 0x0A]]
      else if lines1 = [Str [CHR 0xFF, CHR ''a'', CHR ''b'', CHR ''c'', CHR ''d'', CHR 0x0A]] \<and>
              lines2 = [Str [CHR 0xFF, CHR ''a'', CHR ''b'', CHR ''c'', CHR ''e'', CHR 0x0A]]
        then Inr [[CHR ''-'', CHR '' '', CHR 0xFF, CHR ''a'', CHR ''b'', CHR ''c'', CHR ''d'', CHR 0x0A],
                  [CHR ''?'', CHR '' '', CHR '' '', CHR '' '', CHR '' '', CHR '' '', CHR ''^'', CHR 0x0A],
                  [CHR ''+'', CHR '' '', CHR 0xFF, CHR ''a'', CHR ''b'', CHR ''c'', CHR ''e'', CHR 0x0A],
                  [CHR ''?'', CHR '' '', CHR '' '', CHR '' '', CHR '' '', CHR '' '', CHR ''^'', CHR 0x0A]]
      else if lines1 = [Bytes [0xFF, 0x61, 0x62, 0x63, 0x64, 0x0A]] \<and>
              lines2 = [Bytes [0xFF, 0x61, 0x62, 0x63, 0x65, 0x0A]]
        then Inl (OtherException ''AttributeError'')
      else Inl (OtherException ''NotRecorded''))"

definition test_listdir :: "path \<Rightarrow> exn + string list" where
  "test_listdir p =
     (if p = ''root'' then Inr [''a'', ''b'', ''c'', ''readme.txt'']
      else if p = ''root/a'' \<or> p = ''root/b'' \<or> p = ''root/c''
        then Inr [''file2.txt'', ''file1.txt'']
      else if p = ''bare'' then Inr [''d'', ''x.txt'']
      else if p = ''bare/d'' then Inr []
      else if p = ''flat'' then Inr [''x.txt'']
      else Inl (OtherException ''FileNotFoundError''))"

definition test_isdir :: "path \<Rightarrow> bool" where
  "test_isdir p =
     (p \<in> set [''root'', ''root/a'', ''root/b'', ''root/c'', ''root/c/file1.txt'',
               ''bare'', ''bare/d'', ''flat'', ''legacy''])"

definition test_open :: "path \<Rightarrow> exn + byte list" where
  "test_open p =
     (if p \<in> set [''root/a/file1.txt'', ''root/a/file2.txt'', ''root/b/file2.txt'',
                   ''root/c/file2.txt'', ''root/readme.txt'', ''bare/x.txt'', ''flat/x.txt'']
        then Inr [0x78, 0x0A]
      else if p = ''root/b/file1.txt'' then Inr [0x78, 0x0A, 0x79, 0x0A]
      else if p = ''legacy/file1.txt'' then Inr [0xFF, 0x61, 0x62, 0x63, 0x64, 0x0A]
      else if p = ''legacy/file2.txt'' then Inr [0xFF, 0x61, 0x62, 0x63, 0x65, 0x0A]
      else if test_isdir p then Inl (OtherException ''IsADirectoryError'')
      else Inl (OtherException ''FileNotFoundError''))"

definition test_exists :: "path \<Rightarrow> bool" where
  "test_exists p = (test_isdir p \<or> isl (test_open p) = False)"

definition test_env :: pyenv where
  "test_env =
     \<lparr>listdir = test_listdir, isdir = test_isdir, path_exists = test_exists,
      path_join = test_join, basename = test_basename, open_file = test_open,
      readlines_utf8 = ascii_readlines, differ_compare = test_differ\<rparr>"

section \<open>Invariants of the classifier's loop\<close>

text \<open>Every \<open>KChangedContent\<close> record stands right after a \<open>KChanged\<close> record.\<close>

definition cc_preceded :: "diff_rec list \<Rightarrow> bool" where
  "cc_preceded ds =
     (\<forall>i<length ds. type (ds ! i) = KChangedContent \<longrightarrow> 0 < i \<and> type (ds ! (i - 1)) = KChanged)"

text \<open>The line numbers recorded so far are non-decreasing, at least 1 and at most
  \<open>line_num + 1\<close>; exactly the \<open>KChangedContent\<close> records have none.\<close>

definition lines_ok :: "diff_rec list \<Rightarrow> int \<Rightarrow> bool" where
  "lines_ok ds n =
     (sorted (List.map_filter line ds) \<and>
      (\<forall>x \<in> set (List.map_filter line ds). 1 \<le> x \<and> x \<le> n + 1) \<and> 0 \<le> n \<and>
      (\<forall>d \<in> set ds. (line d = None) = (type d = KChangedContent)))"

section \<open>Specification-side definitions for the two programs\<close>

text \<open>A pair that \<open>run\<close> of \<open>Compare_txt.py\<close> counts as different: not identical and a
  positive number of differences.\<close>

definition different_detail :: "detail \<Rightarrow> bool" where
  "different_detail d = (\<not> is_identical d \<and> 0 < d_differences d)"

text \<open>The counters of \<open>results\<close> agree with the list \<open>details\<close>.\<close>

definition txt_counts :: "results \<Rightarrow> bool" where
  "txt_counts res =
     (identical_count res = int (length (filter is_identical (details res))) \<and>
      different_count res = int (length (filter different_detail (details res))) \<and>
      error_count res =
        int (length (filter (\<lambda>d. \<not> is_identical d \<and> \<not> different_detail d) (details res))) \<and>
      total_differences res = sum_list (map d_differences (filter different_detail (details res))))"

text \<open>The value under \<open>'status'\<close> and, for a different pair, under \<open>'differences'\<close>.\<close>

fun status :: "comparison \<Rightarrow> string" where
  "status (Identical f1 f2 ext n) = ''identical''"
| "status (Different f1 f2 ext n) = ''different''"
| "status (Error e ext) = ''error''"

fun counted_differences :: "comparison \<Rightarrow> int option" where
  "counted_differences (Different f1 f2 ext n) = Some n"
| "counted_differences c = None"

text \<open>What one extension contributes in \<open>_compare_in_folder\<close>: the outcome of comparing its
  first two files, or nothing when it has fewer than two.\<close>

definition ext_outcome ::
  "pyenv \<Rightarrow> string \<Rightarrow> (string \<times> path list) list \<Rightarrow> string \<Rightarrow>
   (error_log list \<times> different_file list \<times> comparison) option" where
  "ext_outcome env fld fbe ext =
     (case map_of fbe ext of
        Some (f1 # f2 # rest) \<Rightarrow> Some (compare_ext env fld ext f1 f2)
      | _ \<Rightarrow> None)"

definition folder_comparisons :: "pyenv \<Rightarrow> string list \<Rightarrow> string \<times> folder_info \<Rightarrow> comparison list" where
  "folder_comparisons env file_exts g =
     map (\<lambda>out. snd (snd out))
       (List.map_filter (ext_outcome env (fst g) (files_by_ext (snd g))) file_exts)"

text \<open>The counters of the summary of \<open>Compare_nc_txt.py\<close> agree with the comparisons in
  \<open>details\<close>.\<close>

definition nc_counts :: "nc_results \<Rightarrow> bool" where
  "nc_counts res =
     (let cs = concat (map comparisons (nc_details res)) in
      compared_pairs res = int (length cs) \<and>
      identical_pairs res = int (length (filter (\<lambda>c. status c = ''identical'') cs)) \<and>
      different_pairs res = int (length (filter (\<lambda>c. status c = ''different'') cs)) \<and>
      error_pairs res = int (length (filter (\<lambda>c. status c = ''error'') cs)) \<and>
      nc_total_differences res = sum_list (List.map_filter counted_differences cs))"

text \<open>Every configured extension is a key of the folder's \<open>files_by_ext\<close>.\<close>

definition has_keys :: "string list \<Rightarrow> string \<times> folder_info \<Rightarrow> bool" where
  "has_keys exts g = (\<forall>ext \<in> set exts. map_of (files_by_ext (snd g)) ext \<noteq> None)"

text \<open>The summaries of the two programs on the folder \<open>root\<close> of the test environment.\<close>

definition test_txt_summary :: results where
  "test_txt_summary =
     \<lparr>total_folders = 3, identical_count = 1, different_count = 1,
      error_count = 1, total_differences = 1, different_folders = [''b''],
      details =
        [\<lparr>d_folder = ''a'', is_identical = True, d_differences = 0,
          d_file1 = ''root/a/file1.txt'', d_file2 = ''root/a/file2.txt''\<rparr>,
         \<lparr>d_folder = ''b'', is_identical = False, d_differences = 1,
          d_file1 = ''root/b/file1.txt'', d_file2 = ''root/b/file2.txt''\<rparr>,
         \<lparr>d_folder = ''c'', is_identical = False, d_differences = - 1,
          d_file1 = ''root/c/file1.txt'', d_file2 = ''root/c/file2.txt''\<rparr>]\<rparr>"

definition test_nc_summary :: nc_results where
  "test_nc_summary =
     \<lparr>nc_total_folders = 3, compared_pairs = 3, identical_pairs = 1,
      different_pairs = 1, error_pairs = 1, nc_total_differences = 1,
      different_files =
        [\<lparr>df_folder = ''b'', df_file1 = ''file1.txt'', df_file2 = ''file2.txt'',
          df_ext = ''.txt'', df_differences = 1\<rparr>],
      nc_details =
        [\<lparr>comparisons = [Identical ''file1.txt'' ''file2.txt'' ''.txt'' 0], fr_folder = ''a''\<rparr>,
         \<lparr>comparisons = [Different ''file1.txt'' ''file2.txt'' ''.txt'' 1], fr_folder = ''b''\<rparr>,
         \<lparr>comparisons = [Error (OtherException ''IsADirectoryError'') ''.txt''],
          fr_folder = ''c''\<rparr>]\<rparr>"

text \<open>Two variants of the test environment in which the aligner misbehaves: one raises on
  every call, one yields an empty string, on which the classifier's \<open>line[0]\<close> raises
  (\<open>difflib\<close> itself never yields an empty string).\<close>

definition raising_differ_env :: pyenv where
  "raising_differ_env =
     test_env\<lparr>differ_compare := (\<lambda>lines1 lines2. Inl (OtherException ''RecursionError''))\<rparr>"

definition empty_record_env :: pyenv where
  "empty_record_env = test_env\<lparr>differ_compare := (\<lambda>lines1 lines2. Inr [[]])\<rparr>"

text \<open>The value under \<open>'differences'\<close> in a dictionary of \<open>comparison_results\<close>, or
  \<^term>\<open>None\<close> when the dictionary has no such key.\<close>

fun differences_entry :: "comparison \<Rightarrow> int option" where
  "differences_entry (Identical f1 f2 ext n) = Some n"
| "differences_entry (Different f1 f2 ext n) = Some n"
| "differences_entry (Error e ext) = None"


text \<open>The file pairs and the file groups the two programs find under \<open>root\<close>, and the pair
  under \<open>legacy\<close>.\<close>

definition pair_a :: file_pair where
  "pair_a = \<lparr>folder = ''a'', folder_path = ''root/a'',
             file1 = ''root/a/file1.txt'', file2 = ''root/a/file2.txt''\<rparr>"

definition pair_b :: file_pair where
  "pair_b = \<lparr>folder = ''b'', folder_path = ''root/b'',
             file1 = ''root/b/file1.txt'', file2 = ''root/b/file2.txt''\<rparr>"

definition pair_c :: file_pair where
  "pair_c = \<lparr>folder = ''c'', folder_path = ''root/c'',
             file1 = ''root/c/file1.txt'', file2 = ''root/c/file2.txt''\<rparr>"

definition pair_legacy :: file_pair where
  "pair_legacy = \<lparr>folder = ''legacy'', folder_path = ''legacy'',
                  file1 = ''legacy/file1.txt'', file2 = ''legacy/file2.txt''\<rparr>"

definition test_groups :: "(string \<times> folder_info) list" where
  "test_groups =
     map (\<lambda>fld. (fld,
            \<lparr>fi_folder_path = ''root/'' @ fld,
             files_by_ext =
               [(''.nc'', []),
                (''.txt'', [''root/'' @ fld @ ''/file1.txt'', ''root/'' @ fld @ ''/file2.txt''])]\<rparr>))
       [''a'', ''b'', ''c'']"

section \<open>Properties of the classifier\<close>

lemma analyze_loop_append:
  "analyze_loop (xs @ ys) st =
     (case analyze_loop xs st of Inl e \<Rightarrow> Inl e | Inr st' \<Rightarrow> analyze_loop ys st')"
  by (induction xs arbitrary: st) (auto split: sum.splits)



lemma analyze_step_render:
  "analyze_step (render (t, p)) (ds, n) =
     (case t of
        Common \<Rightarrow> Inr (ds, n + 1)
      | Removed \<Rightarrow> Inr (ds @ [\<lparr>type = KRemoved, line = Some (n + 1), content = rstrip_nl p\<rparr>], n)
      | Added \<Rightarrow> Inr (ds @ [\<lparr>type = KAdded, line = Some (n + 1), content = rstrip_nl p\<rparr>], n + 1)
      | Hint \<Rightarrow>
          (if ds \<noteq> [] \<and> type (last ds) = KRemoved
           then Inr (butlast ds @
                  [(last ds)\<lparr>type := KChanged\<rparr>,
                   \<lparr>type = KChangedContent, line = None, content = rstrip_nl p\<rparr>], n)
           else Inr (ds, n)))"
  by (cases t) (simp_all add: render_def analyze_step_def)

lemma analyze_step_render_total:
  "\<exists>st'. analyze_step (render r) st = Inr st'"
proof -
  obtain t p where r: "r = (t, p)" by (cases r)
  obtain ds n where st: "st = (ds, n)" by (cases st)
  show ?thesis unfolding r st analyze_step_render by (cases t) auto
qed

lemma analyze_loop_render_total:
  "\<exists>ds n. analyze_loop (map render rs) st = Inr (ds, n)"
proof (induction rs arbitrary: st)
  case Nil
  then show ?case by (cases st) simp
next
  case (Cons r rs)
  obtain st' where "analyze_step (render r) st = Inr st'"
    using analyze_step_render_total by blast
  then show ?case using Cons.IH [of st'] by simp
qed

lemma analyze_loop_snoc:
  "analyze_loop xs st = Inr st' \<Longrightarrow> analyze_loop (xs @ [ln]) st = analyze_step ln st'"
  by (simp add: analyze_loop_append split: sum.splits)

text \<open>The shapes a step can give the list of differences.\<close>

lemma analyze_step_shape:
  assumes "analyze_step ln (ds, n) = Inr (ds', n')"
  shows "(ds' = ds \<and> (n' = n \<or> n' = n + 1))
       \<or> (\<exists>c. ds' = ds @ [\<lparr>type = KRemoved, line = Some (n + 1), content = c\<rparr>] \<and> n' = n)
       \<or> (\<exists>c. ds' = ds @ [\<lparr>type = KAdded, line = Some (n + 1), content = c\<rparr>] \<and> n' = n + 1)
       \<or> (\<exists>c. ds \<noteq> [] \<and> type (last ds) = KRemoved \<and> n' = n \<and>
              ds' = butlast ds @ [(last ds)\<lparr>type := KChanged\<rparr>,
                                  \<lparr>type = KChangedContent, line = None, content = c\<rparr>])"
  using assms by (auto simp: analyze_step_def split: if_splits list.splits)

lemma cc_preceded_snoc:
  "cc_preceded ds \<Longrightarrow> type d \<noteq> KChangedContent \<Longrightarrow> cc_preceded (ds @ [d])"
  unfolding cc_preceded_def
  by (auto simp: nth_append less_Suc_eq)

lemma cc_preceded_promote:
  assumes "cc_preceded (bs @ [l])" "type l = KRemoved" "type c = KChangedContent"
  shows "cc_preceded (bs @ [l\<lparr>type := KChanged\<rparr>, c])"
  using assms unfolding cc_preceded_def
  by (auto simp: nth_append less_Suc_eq)


lemma analyze_step_cc:
  assumes "cc_preceded ds" "analyze_step ln (ds, n) = Inr (ds', n')"
  shows "cc_preceded ds'"
proof -
  note sh = analyze_step_shape [OF assms(2)]
  then consider
      (same) "ds' = ds"
    | (snoc) d where "ds' = ds @ [d]" "type d \<noteq> KChangedContent"
    | (promote) c where "ds \<noteq> []" "type (last ds) = KRemoved"
        "ds' = butlast ds @ [(last ds)\<lparr>type := KChanged\<rparr>,
                             \<lparr>type = KChangedContent, line = None, content = c\<rparr>]"
    by fastforce
  then show ?thesis
  proof cases
    case same
    then show ?thesis using assms(1) by simp
  next
    case snoc
    then show ?thesis using assms(1) by (simp add: cc_preceded_snoc)
  next
    case promote
    from promote(1) assms(1) have "cc_preceded (butlast ds @ [last ds])" by simp
    then show ?thesis unfolding promote(3)
      by (rule cc_preceded_promote) (simp_all add: promote(2))
  qed
qed

lemma analyze_loop_cc:
  "cc_preceded ds \<Longrightarrow> analyze_loop diff (ds, n) = Inr (ds', n') \<Longrightarrow> cc_preceded ds'"
proof (induction diff arbitrary: ds n)
  case Nil
  then show ?case by simp
next
  case (Cons ln diff)
  from Cons.prems(2) obtain ds1 n1 where
    s: "analyze_step ln (ds, n) = Inr (ds1, n1)" and l: "analyze_loop diff (ds1, n1) = Inr (ds', n')"
    by (auto split: sum.splits)
  from analyze_step_cc [OF Cons.prems(1) s] l show ?case by (rule Cons.IH)
qed

lemma map_filter_append: "List.map_filter f (xs @ ys) = List.map_filter f xs @ List.map_filter f ys"
  by (simp add: List.map_filter_def)

lemma analyze_step_lines:
  assumes "lines_ok ds n" "analyze_step ln (ds, n) = Inr (ds', n')"
  shows "lines_ok ds' n'"
proof -
  note sh = analyze_step_shape [OF assms(2)]
  then consider
      (same) "ds' = ds" "n' = n \<or> n' = n + 1"
    | (snoc) d where "ds' = ds @ [d]" "type d \<noteq> KChangedContent" "line d = Some (n + 1)"
        "n' = n \<or> n' = n + 1"
    | (promote) c where "ds \<noteq> []" "type (last ds) = KRemoved" "n' = n"
        "ds' = butlast ds @ [(last ds)\<lparr>type := KChanged\<rparr>,
                             \<lparr>type = KChangedContent, line = None, content = c\<rparr>]"
    by fastforce
  then show ?thesis
  proof cases
    case same
    then show ?thesis using assms(1) by (auto simp: lines_ok_def)
  next
    case snoc
    then show ?thesis using assms(1)
      by (auto simp: lines_ok_def map_filter_append List.map_filter_simps sorted_append)
  next
    case promote
    from promote(1) have ds: "ds = butlast ds @ [last ds]" by simp
    have "lines_ok (butlast ds @ [last ds]) n" using assms(1) ds by simp
    then show ?thesis unfolding promote(3,4) using promote(2)
      by (auto simp: lines_ok_def map_filter_append List.map_filter_simps split: option.splits)
  qed
qed

lemma analyze_loop_lines:
  "lines_ok ds n \<Longrightarrow> analyze_loop diff (ds, n) = Inr (ds', n') \<Longrightarrow> lines_ok ds' n'"
proof (induction diff arbitrary: ds n)
  case Nil
  then show ?case by simp
next
  case (Cons ln diff)
  from Cons.prems(2) obtain ds1 n1 where
    s: "analyze_step ln (ds, n) = Inr (ds1, n1)" and l: "analyze_loop diff (ds1, n1) = Inr (ds', n')"
    by (auto split: sum.splits)
  from analyze_step_lines [OF Cons.prems(1) s] l show ?case by (rule Cons.IH)
qed

lemma analyze_loop_counter:
  "analyze_loop (map render rs) (ds, n) = Inr (ds', n') \<Longrightarrow>
   n' = n + int (length (filter (\<lambda>r. fst r = Added) rs))
          + int (length (filter (\<lambda>r. fst r = Common) rs))"
proof (induction rs arbitrary: ds n)
  case Nil
  then show ?case by simp
next
  case (Cons r rs)
  obtain t p where r: "r = (t, p)" by (cases r)
  show ?case
  proof (cases t)
    case Common
    with Cons.prems r have "analyze_loop (map render rs) (ds, n + 1) = Inr (ds', n')"
      by (simp add: analyze_step_render)
    from Cons.IH [OF this] show ?thesis using r Common by simp
  next
    case Removed
    with Cons.prems r obtain ds1 where "analyze_loop (map render rs) (ds1, n) = Inr (ds', n')"
      by (simp add: analyze_step_render)
    from Cons.IH [OF this] show ?thesis using r Removed by simp
  next
    case Added
    with Cons.prems r obtain ds1 where "analyze_loop (map render rs) (ds1, n + 1) = Inr (ds', n')"
      by (simp add: analyze_step_render)
    from Cons.IH [OF this] show ?thesis using r Added by simp
  next
    case Hint
    with Cons.prems r obtain ds1 where "analyze_loop (map render rs) (ds1, n) = Inr (ds', n')"
      by (simp add: analyze_step_render split: if_splits)
    from Cons.IH [OF this] show ?thesis using r Hint by simp
  qed
qed

lemma align_lcs_same: "align_lcs L L = map (Pair Common) L"
  by (induction L) simp_all

lemma add_hints_common: "add_hints sim ann (map (Pair Common) L) = map (Pair Common) L"
  by (induction L rule: induct_list012) simp_all

lemma analyze_loop_common:
  "analyze_loop (map render (map (Pair Common) L)) (ds, n) = Inr (ds, n + int (length L))"
  by (induction L arbitrary: n) (simp_all add: analyze_step_render)


text \<open>
  Claim C1. In any state \<open>(ds, n)\<close> of the classifier's loop, and so after any alignment
  sequence \<open>rs\<close> that leaves the loop in that state: a Common record gives \<open>(ds, n + 1)\<close>
  and emits nothing; a Removed record appends a \<open>KRemoved\<close> record with line \<open>n + 1\<close> and
  leaves the counter at \<open>n\<close>; an Added record appends a \<open>KAdded\<close> record with line \<open>n + 1\<close>
  and moves the counter to \<open>n + 1\<close>. The content recorded is the payload without its
  trailing newlines.
\<close>

theorem classifier_record_steps:
  "analyze_step (render (Common, p)) (ds, n) = Inr (ds, n + 1) \<and>
   analyze_step (render (Removed, p)) (ds, n) =
     Inr (ds @ [\<lparr>type = KRemoved, line = Some (n + 1), content = rstrip_nl p\<rparr>], n) \<and>
   analyze_step (render (Added, p)) (ds, n) =
     Inr (ds @ [\<lparr>type = KAdded, line = Some (n + 1), content = rstrip_nl p\<rparr>], n + 1) \<and>
   (\<forall>rs. analyze_loop (map render rs) ([], 0) = Inr (ds, n) \<longrightarrow>
      analyze_loop (map render (rs @ [(Common, p)])) ([], 0) = Inr (ds, n + 1) \<and>
      analyze_loop (map render (rs @ [(Removed, p)])) ([], 0) =
        Inr (ds @ [\<lparr>type = KRemoved, line = Some (n + 1), content = rstrip_nl p\<rparr>], n) \<and>
      analyze_loop (map render (rs @ [(Added, p)])) ([], 0) =
        Inr (ds @ [\<lparr>type = KAdded, line = Some (n + 1), content = rstrip_nl p\<rparr>], n + 1))"
  by (simp add: analyze_step_render analyze_loop_snoc)

text \<open>
  The three steps after the alignment sequence that holds one Removed record.
\<close>

theorem classifier_record_steps_witness:
  "analyze_loop (map render [(Removed, ''a'')]) ([], 0) =
     Inr ([\<lparr>type = KRemoved, line = Some 1, content = ''a''\<rparr>], 0) \<and>
   analyze_loop (map render ([(Removed, ''a'')] @ [(Common, ''b'')])) ([], 0) =
     Inr ([\<lparr>type = KRemoved, line = Some 1, content = ''a''\<rparr>], 1) \<and>
   analyze_loop (map render ([(Removed, ''a'')] @ [(Removed, ''b'')])) ([], 0) =
     Inr ([\<lparr>type = KRemoved, line = Some 1, content = ''a''\<rparr>,
           \<lparr>type = KRemoved, line = Some 1, content = ''b''\<rparr>], 0) \<and>
   analyze_loop (map render ([(Removed, ''a'')] @ [(Added, ''b'')])) ([], 0) =
     Inr ([\<lparr>type = KRemoved, line = Some 1, content = ''a''\<rparr>,
           \<lparr>type = KAdded, line = Some 1, content = ''b''\<rparr>], 1)"
proof -
  have h: "analyze_loop (map render [(Removed, ''a'')]) ([], 0) =
     Inr ([\<lparr>type = KRemoved, line = Some 1, content = ''a''\<rparr>], 0)"
    by (simp add: render_def analyze_step_def rstrip_nl_def)
  note t = classifier_record_steps
    [of "''b''" "[\<lparr>type = KRemoved, line = Some 1, content = ''a''\<rparr>]" 0]
  from t have "\<forall>rs. analyze_loop (map render rs) ([], 0) =
       Inr ([\<lparr>type = KRemoved, line = Some 1, content = ''a''\<rparr>], 0) \<longrightarrow>
      analyze_loop (map render (rs @ [(Common, ''b'')])) ([], 0) =
        Inr ([\<lparr>type = KRemoved, line = Some 1, content = ''a''\<rparr>], 0 + 1) \<and>
      analyze_loop (map render (rs @ [(Removed, ''b'')])) ([], 0) =
        Inr ([\<lparr>type = KRemoved, line = Some 1, content = ''a''\<rparr>] @
             [\<lparr>type = KRemoved, line = Some (0 + 1), content = rstrip_nl ''b''\<rparr>], 0) \<and>
      analyze_loop (map render (rs @ [(Added, ''b'')])) ([], 0) =
        Inr ([\<lparr>type = KRemoved, line = Some 1, content = ''a''\<rparr>] @
             [\<lparr>type = KAdded, line = Some (0 + 1), content = rstrip_nl ''b''\<rparr>], 0 + 1)"
    by blast
  from this [rule_format, OF h] h show ?thesis by (simp add: rstrip_nl_def)
qed

text \<open>
  Claim C2. Let the classifier's loop give \<open>ds\<close> on an alignment sequence \<open>rs\<close> and \<open>ds'\<close> on
  \<open>rs\<close> followed by one more record \<open>r\<close>. In \<open>ds\<close>, every \<open>KChangedContent\<close> record has a
  predecessor, and it is a \<open>KChanged\<close> record. Every \<open>KChanged\<close> record of \<open>ds'\<close> either was
  already that record of \<open>ds\<close>, at the same position, or \<open>r\<close> is a Hint, the record is the
  last record of \<open>ds\<close>, which was \<open>KRemoved\<close>, with only its type changed (its line and
  content are kept), and \<open>ds'\<close> is \<open>ds\<close> with that promotion and the new
  \<open>KChangedContent\<close> record after it.
\<close>

theorem changed_content_follows_changed:
  assumes "analyze_loop (map render rs) ([], 0) = Inr (ds, n)"
    and "analyze_loop (map render (rs @ [r])) ([], 0) = Inr (ds', n')"
  shows "(\<forall>i<length ds. type (ds ! i) = KChangedContent \<longrightarrow>
            0 < i \<and> type (ds ! (i - 1)) = KChanged) \<and>
         (\<forall>i<length ds'. type (ds' ! i) = KChanged \<longrightarrow>
            (i < length ds \<and> ds ! i = ds' ! i) \<or>
            (fst r = Hint \<and> Suc i = length ds \<and> type (ds ! i) = KRemoved \<and>
             ds' = butlast ds @ [(ds ! i)\<lparr>type := KChanged\<rparr>,
                     \<lparr>type = KChangedContent, line = None, content = rstrip_nl (snd r)\<rparr>]))"
proof
  have "cc_preceded []" by (simp add: cc_preceded_def)
  from analyze_loop_cc [OF this assms(1)]
  show "\<forall>i<length ds. type (ds ! i) = KChangedContent \<longrightarrow>
            0 < i \<and> type (ds ! (i - 1)) = KChanged"
    by (simp add: cc_preceded_def)
next
  obtain t p where r: "r = (t, p)" by (cases r)
  have step: "analyze_step (render (t, p)) (ds, n) = Inr (ds', n')"
    using analyze_loop_snoc [OF assms(1), of "render r"] assms(2) r by simp
  show "\<forall>i<length ds'. type (ds' ! i) = KChanged \<longrightarrow>
            (i < length ds \<and> ds ! i = ds' ! i) \<or>
            (fst r = Hint \<and> Suc i = length ds \<and> type (ds ! i) = KRemoved \<and>
             ds' = butlast ds @ [(ds ! i)\<lparr>type := KChanged\<rparr>,
                     \<lparr>type = KChangedContent, line = None, content = rstrip_nl (snd r)\<rparr>])"
  proof (cases t)
    case Common
    with step show ?thesis by (simp add: analyze_step_render)
  next
    case Removed
    with step show ?thesis
      by (auto simp: analyze_step_render nth_append less_Suc_eq split: if_splits)
  next
    case Added
    with step show ?thesis
      by (auto simp: analyze_step_render nth_append less_Suc_eq split: if_splits)
  next
    case Hint
    show ?thesis
    proof (cases "ds \<noteq> [] \<and> type (last ds) = KRemoved")
      case False
      with step Hint show ?thesis by (auto simp: analyze_step_render)
    next
      case True
      then have l: "last ds = ds ! (length ds - 1)" and len: "0 < length ds"
        by (simp_all add: last_conv_nth)
      from step Hint True have ds': "ds' = butlast ds @ [(last ds)\<lparr>type := KChanged\<rparr>,
                     \<lparr>type = KChangedContent, line = None, content = rstrip_nl p\<rparr>]"
        by (simp add: analyze_step_render)
      show ?thesis
      proof (intro allI impI)
        fix i assume i: "i < length ds'" and c: "type (ds' ! i) = KChanged"
        from i ds' len have "i < length ds - 1 \<or> i = length ds - 1 \<or> i = length ds"
          by auto
        then show "(i < length ds \<and> ds ! i = ds' ! i) \<or>
            (fst r = Hint \<and> Suc i = length ds \<and> type (ds ! i) = KRemoved \<and>
             ds' = butlast ds @ [(ds ! i)\<lparr>type := KChanged\<rparr>,
                     \<lparr>type = KChangedContent, line = None, content = rstrip_nl (snd r)\<rparr>])"
        proof (elim disjE)
          assume "i < length ds - 1"
          then have "i < length ds" "ds ! i = ds' ! i"
            unfolding ds' by (simp_all add: nth_append nth_butlast)
          then show ?thesis by simp
        next
          assume "i = length ds - 1"
          then show ?thesis using True l len ds' r Hint by simp
        next
          assume e: "i = length ds"
          have "length (butlast ds @ [(last ds)\<lparr>type := KChanged\<rparr>]) = length ds"
            using len by simp
          then have "type (ds' ! length ds) = KChangedContent"
            unfolding ds' by (simp add: nth_append)
          with c e show ?thesis by simp
        qed
      qed
    qed
  qed
qed


text \<open>
  A Removed record promoted by a Hint, then a further Removed record.
\<close>

theorem changed_content_follows_changed_witness:
  "analyze_loop (map render [(Removed, ''a''), (Hint, ''^'')]) ([], 0) =
     Inr ([\<lparr>type = KChanged, line = Some 1, content = ''a''\<rparr>,
           \<lparr>type = KChangedContent, line = None, content = ''^''\<rparr>], 0) \<and>
   analyze_loop (map render ([(Removed, ''a''), (Hint, ''^'')] @ [(Removed, ''b'')])) ([], 0) =
     Inr ([\<lparr>type = KChanged, line = Some 1, content = ''a''\<rparr>,
           \<lparr>type = KChangedContent, line = None, content = ''^''\<rparr>,
           \<lparr>type = KRemoved, line = Some 1, content = ''b''\<rparr>], 0) \<and>
   (1::nat) < length [\<lparr>type = KChanged, line = Some 1, content = ''a''\<rparr>,
           \<lparr>type = KChangedContent, line = None, content = ''^''\<rparr>] \<and>
   type ([\<lparr>type = KChanged, line = Some 1, content = ''a''\<rparr>,
           \<lparr>type = KChangedContent, line = None, content = ''^''\<rparr>] ! 1) = KChangedContent \<and>
   type ([\<lparr>type = KChanged, line = Some 1, content = ''a''\<rparr>,
           \<lparr>type = KChangedContent, line = None, content = ''^''\<rparr>] ! (1 - 1)) = KChanged"
proof -
  have h1: "analyze_loop (map render [(Removed, ''a''), (Hint, ''^'')]) ([], 0) =
     Inr ([\<lparr>type = KChanged, line = Some 1, content = ''a''\<rparr>,
           \<lparr>type = KChangedContent, line = None, content = ''^''\<rparr>], 0)"
    by (simp add: render_def analyze_step_def rstrip_nl_def)
  have h2: "analyze_loop (map render ([(Removed, ''a''), (Hint, ''^'')] @ [(Removed, ''b'')])) ([], 0) =
     Inr ([\<lparr>type = KChanged, line = Some 1, content = ''a''\<rparr>,
           \<lparr>type = KChangedContent, line = None, content = ''^''\<rparr>,
           \<lparr>type = KRemoved, line = Some 1, content = ''b''\<rparr>], 0)"
    by (simp add: render_def analyze_step_def rstrip_nl_def)
  from changed_content_follows_changed [OF h1 h2] h1 h2 show ?thesis by simp
qed

text \<open>
  Claim C3. When the list of differences is empty or its last record is not \<open>KRemoved\<close>
  (it is \<open>KAdded\<close>, \<open>KChanged\<close> or \<open>KChangedContent\<close>), a Hint record leaves the list and
  the line counter as they are: for the step in any state, and for the loop after any
  alignment sequence that reaches the state.
\<close>

theorem hint_without_removed_dropped:
  assumes "ds = [] \<or> type (last ds) \<noteq> KRemoved"
  shows "analyze_step (render (Hint, p)) (ds, n) = Inr (ds, n) \<and>
         (\<forall>rs. analyze_loop (map render rs) ([], 0) = Inr (ds, n) \<longrightarrow>
            analyze_loop (map render (rs @ [(Hint, p)])) ([], 0) = Inr (ds, n))"
  using assms by (auto simp: analyze_step_render analyze_loop_snoc)

text \<open>
  A Hint as the first record, after an Added record, after a Removed record that a Hint
  has promoted already, and in a state whose last record is \<open>KChanged\<close>.
\<close>

theorem hint_without_removed_dropped_witness:
  "analyze_loop (map render ([] @ [(Hint, ''^'')])) ([], 0) = Inr ([], 0) \<and>
   analyze_loop (map render ([(Added, ''a'')] @ [(Hint, ''^'')])) ([], 0) =
     Inr ([\<lparr>type = KAdded, line = Some 1, content = ''a''\<rparr>], 1) \<and>
   analyze_loop (map render ([(Removed, ''a''), (Hint, ''^'')] @ [(Hint, ''+'')])) ([], 0) =
     Inr ([\<lparr>type = KChanged, line = Some 1, content = ''a''\<rparr>,
           \<lparr>type = KChangedContent, line = None, content = ''^''\<rparr>], 0) \<and>
   analyze_step (render (Hint, ''^'')) ([\<lparr>type = KChanged, line = Some 1, content = ''a''\<rparr>], 0) =
     Inr ([\<lparr>type = KChanged, line = Some 1, content = ''a''\<rparr>], 0)"
proof -
  let ?A = "[\<lparr>type = KAdded, line = Some 1, content = ''a''\<rparr>]"
  let ?C = "[\<lparr>type = KChanged, line = Some 1, content = ''a''\<rparr>,
             \<lparr>type = KChangedContent, line = None, content = ''^''\<rparr>]"
  let ?D = "[\<lparr>type = KChanged, line = Some 1, content = ''a''\<rparr>]"
  have a0: "([]::diff_rec list) = [] \<or> type (last ([]::diff_rec list)) \<noteq> KRemoved" by simp
  have a1: "?A = [] \<or> type (last ?A) \<noteq> KRemoved" by simp
  have a2: "?C = [] \<or> type (last ?C) \<noteq> KRemoved" by simp
  have a3: "?D = [] \<or> type (last ?D) \<noteq> KRemoved" by simp
  have r0: "analyze_loop (map render []) ([], 0) = Inr ([], 0)" by simp
  have r1: "analyze_loop (map render [(Added, ''a'')]) ([], 0) = Inr (?A, 1)"
    by (simp add: render_def analyze_step_def rstrip_nl_def)
  have r2: "analyze_loop (map render [(Removed, ''a''), (Hint, ''^'')]) ([], 0) = Inr (?C, 0)"
    by (simp add: render_def analyze_step_def rstrip_nl_def)
  from hint_without_removed_dropped [OF a0, of "''^''" 0] r0
  have c0: "analyze_loop (map render ([] @ [(Hint, ''^'')])) ([], 0) = Inr ([], 0)" by blast
  from hint_without_removed_dropped [OF a1, of "''^''" 1] r1
  have c1: "analyze_loop (map render ([(Added, ''a'')] @ [(Hint, ''^'')])) ([], 0) = Inr (?A, 1)"
    by blast
  from hint_without_removed_dropped [OF a2, of "''+''" 0] r2
  have c2: "analyze_loop (map render ([(Removed, ''a''), (Hint, ''^'')] @ [(Hint, ''+'')])) ([], 0) =
      Inr (?C, 0)"
    by blast
  from hint_without_removed_dropped [OF a3, of "''^''" 0]
  have c3: "analyze_step (render (Hint, ''^'')) (?D, 0) = Inr (?D, 0)" by blast
  from c0 c1 c2 c3 show ?thesis by blast
qed

text \<open>
  Claim C4. Classifying the alignment of a line sequence with itself gives the empty list
  of differences, for the aligner of the specification with any similarity test and any
  annotation.
\<close>

theorem self_alignment_no_differences:
  "analyze_differences (map render (align sim ann L L)) = Inr []"
  by (simp add: analyze_differences_def align_def align_lcs_same add_hints_common
      analyze_loop_common del: map_map)

text \<open>
  Claim C5. On every alignment sequence the loop ends, and its line counter is then the
  number of Added records plus the number of Common records.
\<close>

theorem line_counter_counts_added_and_common:
  "\<exists>ds. analyze_loop (map render rs) ([], 0) =
     Inr (ds, int (length (filter (\<lambda>r. fst r = Added) rs))
            + int (length (filter (\<lambda>r. fst r = Common) rs)))"
proof -
  obtain ds n where l: "analyze_loop (map render rs) ([], 0) = Inr (ds, n)"
    using analyze_loop_render_total by blast
  from analyze_loop_counter [OF l] l show ?thesis by simp
qed

text \<open>
  Claim C9. On every alignment sequence the classifier returns a list in which the line
  numbers, read in output order, never decrease and are at least 1; the records without a
  line number are exactly the \<open>KChangedContent\<close> records, so the numbers are those of the
  \<open>KRemoved\<close>, \<open>KAdded\<close> and \<open>KChanged\<close> records.
\<close>

theorem line_numbers_nondecreasing:
  "\<exists>ds. analyze_differences (map render rs) = Inr ds \<and>
     sorted (List.map_filter line ds) \<and>
     (\<forall>x \<in> set (List.map_filter line ds). 1 \<le> x) \<and>
     (\<forall>d \<in> set ds. (line d = None) = (type d = KChangedContent))"
proof -
  obtain ds n where l: "analyze_loop (map render rs) ([], 0) = Inr (ds, n)"
    using analyze_loop_render_total by blast
  have "lines_ok [] 0" by (simp add: lines_ok_def List.map_filter_simps)
  from analyze_loop_lines [OF this l] have "lines_ok ds n" .
  with l show ?thesis by (auto simp: analyze_differences_def lines_ok_def)
qed

text \<open>
  An alignment with a Common, a promoted Removed, an Added and a Removed record: the
  line numbers are 2, 2, 3.
\<close>

theorem line_numbers_nondecreasing_witness:
  "analyze_differences
     (map render [(Common, ''a''), (Removed, ''b''), (Hint, ''^''), (Added, ''c''), (Removed, ''d'')]) =
     Inr [\<lparr>type = KChanged, line = Some 2, content = ''b''\<rparr>,
          \<lparr>type = KChangedContent, line = None, content = ''^''\<rparr>,
          \<lparr>type = KAdded, line = Some 2, content = ''c''\<rparr>,
          \<lparr>type = KRemoved, line = Some 3, content = ''d''\<rparr>] \<and>
   sorted (List.map_filter line
         [\<lparr>type = KChanged, line = Some 2, content = ''b''\<rparr>,
          \<lparr>type = KChangedContent, line = None, content = ''^''\<rparr>,
          \<lparr>type = KAdded, line = Some 2, content = ''c''\<rparr>,
          \<lparr>type = KRemoved, line = Some 3, content = ''d''\<rparr>]) \<and>
   List.map_filter line
         [\<lparr>type = KChanged, line = Some 2, content = ''b''\<rparr>,
          \<lparr>type = KChangedContent, line = None, content = ''^''\<rparr>,
          \<lparr>type = KAdded, line = Some 2, content = ''c''\<rparr>,
          \<lparr>type = KRemoved, line = Some 3, content = ''d''\<rparr>] = [2, 2, 3]"
proof -
  let ?rs = "[(Common, ''a''), (Removed, ''b''), (Hint, ''^''), (Added, ''c''), (Removed, ''d'')]"
  have e: "analyze_differences (map render ?rs) =
     Inr [\<lparr>type = KChanged, line = Some 2, content = ''b''\<rparr>,
          \<lparr>type = KChangedContent, line = None, content = ''^''\<rparr>,
          \<lparr>type = KAdded, line = Some 2, content = ''c''\<rparr>,
          \<lparr>type = KRemoved, line = Some 3, content = ''d''\<rparr>]"
    by (simp add: analyze_differences_def render_def analyze_step_def rstrip_nl_def)
  from line_numbers_nondecreasing [of ?rs] e show ?thesis
    by (auto simp: List.map_filter_simps)
qed

section \<open>Properties of the two programs\<close>

lemma compare_file_pair_cases:
  "compare_file_pair env pair = (w, b, c) \<Longrightarrow>
     (b \<and> c = 0 \<and> w = []) \<or> (\<not> b \<and> 0 < c \<and> w = []) \<or>
     (\<not> b \<and> c = - 1 \<and> (\<exists>e. w = [FolderError (folder pair) e]))"
  by (auto simp: compare_file_pair_def split: sum.splits if_splits)

lemma run_step_details:
  "run_step env (log, res) pair = (log', res') \<Longrightarrow>
   details res' = details res @
     [\<lparr>d_folder = folder pair, is_identical = fst (snd (compare_file_pair env pair)),
       d_differences = snd (snd (compare_file_pair env pair)),
       d_file1 = file1 pair, d_file2 = file2 pair\<rparr>] \<and>
   log' = log @ fst (compare_file_pair env pair) \<and>
   total_folders res' = total_folders res"
  by (auto simp: run_step_def Let_def split: prod.splits if_splits)

lemma run_step_counts:
  assumes "run_step env (log, res) pair = (log', res')" "txt_counts res"
  shows "txt_counts res'"
  using assms
  by (auto simp: run_step_def Let_def txt_counts_def different_detail_def
      split: prod.splits if_splits)

lemma foldl_run_step:
  "foldl (run_step env) (log, res) pairs = (log', res') \<Longrightarrow>
   details res' = details res @
     map (\<lambda>pair. \<lparr>d_folder = folder pair, is_identical = fst (snd (compare_file_pair env pair)),
       d_differences = snd (snd (compare_file_pair env pair)),
       d_file1 = file1 pair, d_file2 = file2 pair\<rparr>) pairs \<and>
   log' = log @ concat (map (\<lambda>pair. fst (compare_file_pair env pair)) pairs) \<and>
   total_folders res' = total_folders res \<and>
   (txt_counts res \<longrightarrow> txt_counts res')"
proof (induction pairs arbitrary: log res)
  case Nil
  then show ?case by simp
next
  case (Cons pair pairs)
  obtain log1 res1 where s: "run_step env (log, res) pair = (log1, res1)"
    by (cases "run_step env (log, res) pair")
  with Cons.prems have f: "foldl (run_step env) (log1, res1) pairs = (log', res')" by simp
  from Cons.IH [OF f] run_step_details [OF s] run_step_counts [OF s]
  show ?case by auto
qed

lemma foldl_tally:
  "foldl (tally fld) res cs = res' \<Longrightarrow>
   compared_pairs res' = compared_pairs res + int (length cs) \<and>
   identical_pairs res' = identical_pairs res + int (length (filter (\<lambda>c. status c = ''identical'') cs)) \<and>
   different_pairs res' = different_pairs res + int (length (filter (\<lambda>c. status c = ''different'') cs)) \<and>
   error_pairs res' = error_pairs res + int (length (filter (\<lambda>c. status c = ''error'') cs)) \<and>
   nc_total_differences res' =
     nc_total_differences res + sum_list (List.map_filter counted_differences cs) \<and>
   nc_details res' = nc_details res \<and> nc_total_folders res' = nc_total_folders res"
proof (induction cs arbitrary: res)
  case Nil
  then show ?case by (simp add: List.map_filter_simps)
next
  case (Cons c cs)
  from Cons.prems have f: "foldl (tally fld) (tally fld res c) cs = res'" by simp
  show ?case using Cons.IH [OF f]
    by (cases c) (simp_all add: tally_def Let_def List.map_filter_simps)
qed

lemma run_nc_loop_counts:
  "run_nc_loop env exts groups (st, res) = Inr (st', res') \<Longrightarrow> nc_counts res \<Longrightarrow>
   nc_counts res' \<and> nc_total_folders res' = nc_total_folders res"
proof (induction groups arbitrary: st res)
  case Nil
  then show ?case by simp
next
  case (Cons g groups)
  from Cons.prems(1) obtain st1 result where
    c: "compare_in_folder env exts (fst g) (snd g) st = Inr (st1, result)" and
    l: "run_nc_loop env exts groups
          (st1, foldl (tally (fst g)) (res\<lparr>nc_details := nc_details res @ [result]\<rparr>)
                  (comparisons result)) = Inr (st', res')"
    by (auto split: sum.splits)
  let ?res1 = "foldl (tally (fst g)) (res\<lparr>nc_details := nc_details res @ [result]\<rparr>)
                  (comparisons result)"
  have "nc_counts ?res1 \<and> nc_total_folders ?res1 = nc_total_folders res"
    using foldl_tally [OF refl, of "fst g" "res\<lparr>nc_details := nc_details res @ [result]\<rparr>"
        "comparisons result"] Cons.prems(2)
    by (simp add: nc_counts_def Let_def map_filter_append)
  with Cons.IH [OF l] show ?case by simp
qed

lemma detail_partition:
  "int (length (filter is_identical ds)) + int (length (filter different_detail ds)) +
   int (length (filter (\<lambda>d. \<not> is_identical d \<and> \<not> different_detail d) ds)) = int (length ds)"
  by (induction ds) (auto simp: different_detail_def)

lemma status_partition:
  "int (length (filter (\<lambda>c. status c = ''identical'') cs)) +
   int (length (filter (\<lambda>c. status c = ''different'') cs)) +
   int (length (filter (\<lambda>c. status c = ''error'') cs)) = int (length cs)"
proof (induction cs)
  case Nil
  then show ?case by simp
next
  case (Cons c cs)
  then show ?case by (cases c) simp_all
qed

lemma run_txt_Some:
  assumes "run_txt env parent_dir file1_name file2_name = Inr (log, Some r)"
  shows "\<exists>pairs. find_file_pairs env parent_dir file1_name file2_name = Inr pairs \<and> pairs \<noteq> [] \<and>
           foldl (run_step env)
             ([], \<lparr>total_folders = int (length pairs), identical_count = 0,
                    different_count = 0, error_count = 0, total_differences = 0,
                    different_folders = [], details = []\<rparr>) pairs = (log, r)"
  using assms by (auto simp: run_txt_def split: sum.splits if_splits prod.splits)

lemma run_nc_Some:
  assumes "run_nc env parent_dir file_exts = Inr (log, Some r)"
  shows "\<exists>groups dfs. find_files env parent_dir file_exts = Inr groups \<and> groups \<noteq> [] \<and>
           run_nc_loop env file_exts groups
             (([], []),
              \<lparr>nc_total_folders = int (length groups), compared_pairs = 0,
                identical_pairs = 0, different_pairs = 0, error_pairs = 0,
                nc_total_differences = 0, different_files = [], nc_details = []\<rparr>) =
           Inr ((log, dfs), r)"
  using assms by (auto simp: run_nc_def split: sum.splits if_splits prod.splits)

lemma run_txt_test:
  "run_txt test_env ''root'' ''file1.txt'' ''file2.txt'' =
     Inr ([FolderError ''c'' (OtherException ''IsADirectoryError'')], Some test_txt_summary)"
  by code_simp

lemma run_nc_test:
  "run_nc test_env ''root'' (init_file_exts [''.NC'', ''.txt'']) =
     Inr ([ProcessingError (OtherException ''IsADirectoryError'')], Some test_nc_summary)"
  by code_simp

lemma compare_exts_closed:
  "\<forall>ext \<in> set exts. map_of fbe ext \<noteq> None \<Longrightarrow>
   compare_exts env fld fbe exts (log, dfs, cr) =
     Inr (log @ concat (map fst (List.map_filter (ext_outcome env fld fbe) exts)),
          dfs @ concat (map (\<lambda>out. fst (snd out)) (List.map_filter (ext_outcome env fld fbe) exts)),
          cr @ map (\<lambda>out. snd (snd out)) (List.map_filter (ext_outcome env fld fbe) exts))"
proof (induction exts arbitrary: log dfs cr)
  case Nil
  then show ?case by (simp add: List.map_filter_simps)
next
  case (Cons ext exts)
  from Cons.prems obtain files where m: "map_of fbe ext = Some files" by auto
  from Cons.prems have rest: "\<forall>ext \<in> set exts. map_of fbe ext \<noteq> None" by simp
  show ?case
  proof (cases files)
    case Nil
    with m show ?thesis
      using Cons.IH [OF rest] by (simp add: ext_outcome_def List.map_filter_simps)
  next
    case (Cons f1 fs)
    note c1 = this
    show ?thesis
    proof (cases fs)
      case Nil
      with m c1 show ?thesis
        using Cons.IH [OF rest] by (simp add: ext_outcome_def List.map_filter_simps)
    next
      case (Cons f2 rest')
      obtain w nd c where o: "compare_ext env fld ext f1 f2 = (w, nd, c)"
        by (cases "compare_ext env fld ext f1 f2")
      with m c1 Cons show ?thesis
        using Cons.IH [OF rest, of "log @ w" "dfs @ nd" "cr @ [c]"]
        by (simp add: ext_outcome_def List.map_filter_simps)
    qed
  qed
qed

lemma compare_in_folder_closed:
  "has_keys exts (fld, info) \<Longrightarrow>
   \<exists>st'. compare_in_folder env exts fld info st =
     Inr (st', \<lparr>comparisons = folder_comparisons env exts (fld, info), fr_folder = fld\<rparr>)"
  by (cases st) (simp add: compare_in_folder_def has_keys_def compare_exts_closed folder_comparisons_def)

lemma run_nc_loop_closed:
  "\<forall>g \<in> set groups. has_keys exts g \<Longrightarrow>
   \<exists>st' res'. run_nc_loop env exts groups (st, res) = Inr (st', res') \<and>
     nc_details res' = nc_details res @
       map (\<lambda>g. \<lparr>comparisons = folder_comparisons env exts g, fr_folder = fst g\<rparr>) groups"
proof (induction groups arbitrary: st res)
  case Nil
  then show ?case by simp
next
  case (Cons g groups)
  from Cons.prems have "has_keys exts (fst g, snd g)" by simp
  from compare_in_folder_closed [OF this, of env st] obtain st1 where
    c: "compare_in_folder env exts (fst g) (snd g) st =
          Inr (st1, \<lparr>comparisons = folder_comparisons env exts g, fr_folder = fst g\<rparr>)"
    by auto
  let ?result = "\<lparr>comparisons = folder_comparisons env exts g, fr_folder = fst g\<rparr>"
  let ?res1 = "foldl (tally (fst g)) (res\<lparr>nc_details := nc_details res @ [?result]\<rparr>)
                  (comparisons ?result)"
  from Cons.prems have "\<forall>g \<in> set groups. has_keys exts g" by simp
  from Cons.IH [OF this, of st1 ?res1] obtain st' res' where
    l: "run_nc_loop env exts groups (st1, ?res1) = Inr (st', res')" and
    d: "nc_details res' = nc_details ?res1 @
       map (\<lambda>g. \<lparr>comparisons = folder_comparisons env exts g, fr_folder = fst g\<rparr>) groups"
    by blast
  have "nc_details ?res1 = nc_details res @ [?result]"
    using foldl_tally [OF refl, of "fst g" "res\<lparr>nc_details := nc_details res @ [?result]\<rparr>"
        "comparisons ?result"] by simp
  with c l d show ?case by simp
qed

lemma set_dict_set: "set (dict_set k v d) \<subseteq> insert (k, v) (set d)"
  by (induction d) auto


lemma ext_files_keys:
  "ext \<in> set exts \<Longrightarrow> \<exists>fs. map_of (ext_files env exts p files) ext = Some fs"
  by (simp add: ext_files_def map_of_map_restrict)

lemma find_files_loop_keys:
  "find_files_loop env parent exts names acc = Inr groups \<Longrightarrow>
   \<forall>g \<in> set acc. has_keys exts g \<Longrightarrow> \<forall>g \<in> set groups. has_keys exts g"
proof (induction names arbitrary: acc)
  case Nil
  then show ?case by simp
next
  case (Cons fld names)
  show ?case
  proof (cases "isdir env (path_join env parent fld)")
    case False
    with Cons.prems(1) have "find_files_loop env parent exts names acc = Inr groups"
      by (simp add: Let_def)
    from Cons.IH [OF this Cons.prems(2)] show ?thesis .
  next
    case True
    with Cons.prems(1) obtain files where
      l: "find_files_loop env parent exts names
            (dict_set fld \<lparr>fi_folder_path = path_join env parent fld,
                        files_by_ext = ext_files env exts (path_join env parent fld) files\<rparr> acc) =
          Inr groups"
      by (auto simp: Let_def split: sum.splits)
    have "\<forall>g \<in> set (dict_set fld \<lparr>fi_folder_path = path_join env parent fld,
                        files_by_ext = ext_files env exts (path_join env parent fld) files\<rparr> acc).
             has_keys exts g"
    proof
      fix g
      assume "g \<in> set (dict_set fld \<lparr>fi_folder_path = path_join env parent fld,
                        files_by_ext = ext_files env exts (path_join env parent fld) files\<rparr> acc)"
      with set_dict_set [of fld _ acc]
      have "g = (fld, \<lparr>fi_folder_path = path_join env parent fld,
                        files_by_ext = ext_files env exts (path_join env parent fld) files\<rparr>)
            \<or> g \<in> set acc"
        by blast
      then show "has_keys exts g"
        using Cons.prems(2) by (auto simp: has_keys_def ext_files_keys)
    qed
    from Cons.IH [OF l this] show ?thesis .
  qed
qed

lemma find_files_keys:
  "find_files env parent exts = Inr groups \<Longrightarrow> \<forall>g \<in> set groups. has_keys exts g"
  using find_files_loop_keys [of env parent exts _ "[]" groups]
  by (auto simp: find_files_def split: sum.splits)

lemma run_nc_continues:
  assumes "find_files env parent exts = Inr groups" "groups \<noteq> []"
  shows "\<exists>log r. run_nc env parent exts = Inr (log, Some r) \<and>
           nc_details r =
             map (\<lambda>g. \<lparr>comparisons = folder_comparisons env exts g, fr_folder = fst g\<rparr>) groups"
proof -
  let ?init = "\<lparr>nc_total_folders = int (length groups), compared_pairs = 0,
                identical_pairs = 0, different_pairs = 0, error_pairs = 0,
                nc_total_differences = 0, different_files = [], nc_details = []\<rparr>"
  from run_nc_loop_closed [OF find_files_keys [OF assms(1)], of env "([], [])" ?init]
  obtain st' res' where
    l: "run_nc_loop env exts groups (([], []), ?init) = Inr (st', res')" and
    d: "nc_details res' =
       map (\<lambda>g. \<lparr>comparisons = folder_comparisons env exts g, fr_folder = fst g\<rparr>) groups"
    by auto
  obtain log dfs where st': "st' = (log, dfs)" by (cases st')
  have "run_nc env parent exts = Inr (log, Some res')"
    using assms l st' by (simp add: run_nc_def)
  with d show ?thesis by blast
qed

lemma run_txt_continues:
  assumes "find_file_pairs env parent f1 f2 = Inr pairs" "pairs \<noteq> []"
  shows "\<exists>log r. run_txt env parent f1 f2 = Inr (log, Some r) \<and>
           details r =
             map (\<lambda>pair. \<lparr>d_folder = folder pair,
                    is_identical = fst (snd (compare_file_pair env pair)),
                    d_differences = snd (snd (compare_file_pair env pair)),
                    d_file1 = file1 pair, d_file2 = file2 pair\<rparr>) pairs \<and>
           log = concat (map (\<lambda>pair. fst (compare_file_pair env pair)) pairs)"
proof -
  let ?init = "\<lparr>total_folders = int (length pairs), identical_count = 0,
                    different_count = 0, error_count = 0, total_differences = 0,
                    different_folders = [], details = []\<rparr>"
  obtain log r where f: "foldl (run_step env) ([], ?init) pairs = (log, r)"
    by (cases "foldl (run_step env) ([], ?init) pairs")
  have "run_txt env parent f1 f2 = Inr (log, Some r)"
    using assms f by (simp add: run_txt_def)
  with foldl_run_step [OF f] show ?thesis by simp
qed

text \<open>
  Claim C10. When \<open>run\<close> returns a summary: in \<open>Compare_txt.py\<close> the three outcome counters
  add up to \<open>total_folders\<close>, which is the number of entries of \<open>details\<close>, \<open>different_count\<close>
  is the number of entries that are not identical and have a positive difference count,
  and \<open>total_differences\<close> is the sum of the difference counts of those entries; in
  \<open>Compare_nc_txt.py\<close> the three outcome counters add up to \<open>compared_pairs\<close>, which is
  the number of comparisons in \<open>details\<close>, \<open>different_pairs\<close> is the number of comparisons
  with status \<open>'different'\<close>, and \<open>total_differences\<close> is the sum of their difference
  counts.
\<close>

theorem summary_counters_partition:
  "(\<forall>log r. run_txt env parent_dir file1_name file2_name = Inr (log, Some r) \<longrightarrow>
      identical_count r + different_count r + error_count r = total_folders r \<and>
      total_folders r = int (length (details r)) \<and>
      different_count r =
        int (length (filter (\<lambda>d. \<not> is_identical d \<and> 0 < d_differences d) (details r))) \<and>
      total_differences r =
        sum_list (map d_differences
          (filter (\<lambda>d. \<not> is_identical d \<and> 0 < d_differences d) (details r)))) \<and>
   (\<forall>log r. run_nc env parent_dir file_exts = Inr (log, Some r) \<longrightarrow>
      identical_pairs r + different_pairs r + error_pairs r = compared_pairs r \<and>
      compared_pairs r = int (length (concat (map comparisons (nc_details r)))) \<and>
      different_pairs r =
        int (length (filter (\<lambda>c. status c = ''different'')
          (concat (map comparisons (nc_details r))))) \<and>
      nc_total_differences r =
        sum_list (List.map_filter counted_differences
          (concat (map comparisons (nc_details r)))))"
proof (intro conjI allI impI)
  fix log r
  assume "run_txt env parent_dir file1_name file2_name = Inr (log, Some r)"
  from run_txt_Some [OF this] obtain pairs where
    f: "foldl (run_step env)
             ([], \<lparr>total_folders = int (length pairs), identical_count = 0,
                    different_count = 0, error_count = 0, total_differences = 0,
                    different_folders = [], details = []\<rparr>) pairs = (log, r)"
    by blast
  note fl = foldl_run_step [OF f]
  have c: "txt_counts r" using fl by (simp add: txt_counts_def)
  have len: "total_folders r = int (length (details r))" using fl by simp
  have dd: "different_detail = (\<lambda>d. \<not> is_identical d \<and> 0 < d_differences d)"
    by (rule ext) (simp add: different_detail_def)
  show "identical_count r + different_count r + error_count r = total_folders r"
    using c len detail_partition [of "details r"] by (simp add: txt_counts_def)
  show "total_folders r = int (length (details r))" by (rule len)
  show "different_count r =
        int (length (filter (\<lambda>d. \<not> is_identical d \<and> 0 < d_differences d) (details r)))"
    using c by (simp add: txt_counts_def dd)
  show "total_differences r =
        sum_list (map d_differences
          (filter (\<lambda>d. \<not> is_identical d \<and> 0 < d_differences d) (details r)))"
    using c by (simp add: txt_counts_def dd)
next
  fix log r
  assume "run_nc env parent_dir file_exts = Inr (log, Some r)"
  from run_nc_Some [OF this] obtain groups dfs where
    l: "run_nc_loop env file_exts groups
             (([], []),
              \<lparr>nc_total_folders = int (length groups), compared_pairs = 0,
                identical_pairs = 0, different_pairs = 0, error_pairs = 0,
                nc_total_differences = 0, different_files = [], nc_details = []\<rparr>) =
           Inr ((log, dfs), r)"
    by blast
  have "nc_counts r"
    using run_nc_loop_counts [OF l] by (simp add: nc_counts_def List.map_filter_simps)
  then have c: "compared_pairs r = int (length (concat (map comparisons (nc_details r))))"
    "identical_pairs r = int (length (filter (\<lambda>c. status c = ''identical'')
        (concat (map comparisons (nc_details r)))))"
    "different_pairs r = int (length (filter (\<lambda>c. status c = ''different'')
        (concat (map comparisons (nc_details r)))))"
    "error_pairs r = int (length (filter (\<lambda>c. status c = ''error'')
        (concat (map comparisons (nc_details r)))))"
    "nc_total_differences r = sum_list (List.map_filter counted_differences
        (concat (map comparisons (nc_details r))))"
    by (simp_all add: nc_counts_def Let_def)
  show "identical_pairs r + different_pairs r + error_pairs r = compared_pairs r"
    using c(1-4) status_partition [of "concat (map comparisons (nc_details r))"] by simp
  show "compared_pairs r = int (length (concat (map comparisons (nc_details r))))"
    by (rule c(1))
  show "different_pairs r =
        int (length (filter (\<lambda>c. status c = ''different'')
          (concat (map comparisons (nc_details r)))))"
    by (rule c(3))
  show "nc_total_differences r =
        sum_list (List.map_filter counted_differences
          (concat (map comparisons (nc_details r))))"
    by (rule c(5))
qed

text \<open>
  The two programs on the folder \<open>root\<close> of the test environment: one identical pair, one
  different pair with one difference, one pair whose first file cannot be opened.
\<close>

theorem summary_counters_partition_witness:
  "run_txt test_env ''root'' ''file1.txt'' ''file2.txt'' =
     Inr ([FolderError ''c'' (OtherException ''IsADirectoryError'')], Some test_txt_summary) \<and>
   identical_count test_txt_summary + different_count test_txt_summary +
     error_count test_txt_summary = total_folders test_txt_summary \<and>
   total_folders test_txt_summary = 3 \<and>
   total_differences test_txt_summary =
     sum_list (map d_differences
       (filter (\<lambda>d. \<not> is_identical d \<and> 0 < d_differences d) (details test_txt_summary))) \<and>
   run_nc test_env ''root'' (init_file_exts [''.NC'', ''.txt'']) =
     Inr ([ProcessingError (OtherException ''IsADirectoryError'')], Some test_nc_summary) \<and>
   identical_pairs test_nc_summary + different_pairs test_nc_summary +
     error_pairs test_nc_summary = compared_pairs test_nc_summary \<and>
   compared_pairs test_nc_summary = 3 \<and>
   nc_total_differences test_nc_summary =
     sum_list (List.map_filter counted_differences
       (concat (map comparisons (nc_details test_nc_summary))))"
proof -
  note t = summary_counters_partition
    [of test_env "''root''" "''file1.txt''" "''file2.txt''" "init_file_exts [''.NC'', ''.txt'']"]
  from t run_txt_test have
    "identical_count test_txt_summary + different_count test_txt_summary +
       error_count test_txt_summary = total_folders test_txt_summary"
    "total_differences test_txt_summary =
     sum_list (map d_differences
       (filter (\<lambda>d. \<not> is_identical d \<and> 0 < d_differences d) (details test_txt_summary)))"
    by blast+
  moreover from t run_nc_test have
    "identical_pairs test_nc_summary + different_pairs test_nc_summary +
       error_pairs test_nc_summary = compared_pairs test_nc_summary"
    "nc_total_differences test_nc_summary =
     sum_list (List.map_filter counted_differences
       (concat (map comparisons (nc_details test_nc_summary))))"
    by blast+
  moreover have "total_folders test_txt_summary = 3" "compared_pairs test_nc_summary = 3"
    by (simp_all add: test_txt_summary_def test_nc_summary_def)
  ultimately show ?thesis using run_txt_test run_nc_test by blast
qed

lemma read_lines_fallback:
  assumes "read_utf8 env f1 f2 = Inl UnicodeDecodeError"
    and "read_binary env f1 f2 = Inr (lines1, lines2)"
  shows "read_lines_txt env f1 f2 = Inr (map Bytes lines1, map Bytes lines2)"
    and "read_lines_nc env f1 f2 =
           Inr (map (\<lambda>l. Str (decode_latin1 l)) lines1, map (\<lambda>l. Str (decode_latin1 l)) lines2)"
  using assms by (simp_all add: read_lines_txt_def read_lines_nc_def)

text \<open>What the two programs make of that pair downstream, with the recorded answers of
  \<open>difflib\<close>: an error with the count \<open>-1\<close> in \<open>Compare_txt.py\<close>, three differences (a
  changed line with its new content, and an added line) in \<open>Compare_nc_txt.py\<close>.\<close>

lemma legacy_pair_outcomes:
  "compare_file_pair test_env pair_legacy =
     ([FolderError ''legacy'' (OtherException ''AttributeError'')], False, - 1) \<and>
   compare_ext test_env ''legacy'' ''.txt'' ''legacy/file1.txt'' ''legacy/file2.txt'' =
     ([],
      [\<lparr>df_folder = ''legacy'', df_file1 = ''file1.txt'', df_file2 = ''file2.txt'',
        df_ext = ''.txt'', df_differences = 3\<rparr>],
      Different ''file1.txt'' ''file2.txt'' ''.txt'' 3)"
  by code_simp

text \<open>
  Claim C6, at a pair of files that are not UTF-8 (each holds one line that starts with
  the byte \<open>0xFF\<close>). The UTF-8 read raises \<open>UnicodeDecodeError\<close>. \<open>Compare_nc_txt.py\<close> then
  has the lines decoded as \<open>latin1\<close> text; \<open>Compare_txt.py\<close> has the raw \<open>bytes\<close> lines,
  which no codec has decoded.
\<close>

theorem fallback_lines_at_non_utf8_pair:
  "read_utf8 test_env ''legacy/file1.txt'' ''legacy/file2.txt'' = Inl UnicodeDecodeError \<and>
   read_lines_nc test_env ''legacy/file1.txt'' ''legacy/file2.txt'' =
     Inr ([Str [CHR 0xFF, CHR ''a'', CHR ''b'', CHR ''c'', CHR ''d'', CHR 0x0A]],
          [Str [CHR 0xFF, CHR ''a'', CHR ''b'', CHR ''c'', CHR ''e'', CHR 0x0A]]) \<and>
   read_lines_txt test_env ''legacy/file1.txt'' ''legacy/file2.txt'' =
     Inr ([Bytes [0xFF, 0x61, 0x62, 0x63, 0x64, 0x0A]],
          [Bytes [0xFF, 0x61, 0x62, 0x63, 0x65, 0x0A]])"
  by code_simp

lemma compare_file_pair_raised:
  "(case compare_files_txt env (file1 pair) (file2 pair) of
      Inl e \<Rightarrow> Inl e
    | Inr (diff_result, file1_lines, file2_lines) \<Rightarrow> analyze_differences diff_result) = Inl e \<Longrightarrow>
   compare_file_pair env pair = ([FolderError (folder pair) e], False, - 1)"
  by (simp add: compare_file_pair_def)

lemma compare_ext_raised:
  "(case compare_files_nc env f1 f2 of
      Inl e \<Rightarrow> Inl e
    | Inr (diff_result, file1_lines, file2_lines) \<Rightarrow> analyze_differences diff_result) = Inl e \<Longrightarrow>
   compare_ext env fld ext f1 f2 = ([ProcessingError e], [], Error e ext)"
  by (simp add: compare_ext_def Let_def)

text \<open>
  Claim C7 fails for \<open>Compare_nc_txt.py\<close>: the pair of folder \<open>c\<close> cannot be read, and
  the outcome recorded for it is the dictionary with status \<open>'error'\<close>, which has no
  \<open>'differences'\<close> entry: there is no difference count in it, and so no \<open>-1\<close>.
\<close>

theorem nc_error_outcome_has_no_count:
  "compare_ext test_env ''c'' ''.txt'' ''root/c/file1.txt'' ''root/c/file2.txt'' =
     ([ProcessingError (OtherException ''IsADirectoryError'')], [],
      Error (OtherException ''IsADirectoryError'') ''.txt'') \<and>
   differences_entry (Error (OtherException ''IsADirectoryError'') ''.txt'') = None \<and>
   differences_entry (Error (OtherException ''IsADirectoryError'') ''.txt'') \<noteq> Some (- 1)"
  by code_simp

text \<open>
  Claim C7 as amended. In \<open>Compare_txt.py\<close>: an exception raised by reading the two files,
  by the aligner or by the classifier makes \<open>_compare_file_pair\<close> log the error and return
  \<open>(False, -1)\<close>; when none is raised the count returned is the number of differences;
  so whatever it returns, the count is \<open>-1\<close> with an error in the log, or it is not
  negative and nothing is logged. Once the file pairs are found, \<open>run\<close> returns a summary
  whose \<open>details\<close> hold one entry for every pair, in order, each with the result of
  \<open>_compare_file_pair\<close> on that pair alone, and the log holds the errors of all pairs.
  In \<open>Compare_nc_txt.py\<close>: the same three exceptions make the comparison of an extension
  log the error and append the dictionary with status \<open>'error'\<close>, the exception and the
  extension; that dictionary has no \<open>'differences'\<close> entry, so it is told from a count of
  zero by its status, not by a sentinel. Once the folders are found \<open>run\<close> returns a
  summary whose \<open>details\<close> hold, for every folder in order, the comparisons of all its
  extensions that have two files.
\<close>

theorem pair_exception_caught_run_continues:
  "(read_lines_txt env (file1 pair) (file2 pair) = Inl e \<longrightarrow>
      compare_file_pair env pair = ([FolderError (folder pair) e], False, - 1)) \<and>
   (read_lines_txt env (file1 pair) (file2 pair) = Inr (lines1, lines2) \<and>
    differ_compare env lines1 lines2 = Inl e \<longrightarrow>
      compare_file_pair env pair = ([FolderError (folder pair) e], False, - 1)) \<and>
   (read_lines_txt env (file1 pair) (file2 pair) = Inr (lines1, lines2) \<and>
    differ_compare env lines1 lines2 = Inr diff \<and> analyze_differences diff = Inl e \<longrightarrow>
      compare_file_pair env pair = ([FolderError (folder pair) e], False, - 1)) \<and>
   (read_lines_txt env (file1 pair) (file2 pair) = Inr (lines1, lines2) \<and>
    differ_compare env lines1 lines2 = Inr diff \<and> analyze_differences diff = Inr ds \<longrightarrow>
      compare_file_pair env pair =
        (if ds = [] then ([], True, 0) else ([], False, int (length ds)))) \<and>
   (compare_file_pair env pair = (w, b, c) \<longrightarrow>
      (c = - 1 \<and> \<not> b \<and> (\<exists>e. w = [FolderError (folder pair) e])) \<or> (0 \<le> c \<and> w = [])) \<and>
   (find_file_pairs env parent_dir file1_name file2_name = Inr pairs \<and> pairs \<noteq> [] \<longrightarrow>
      (\<exists>log r. run_txt env parent_dir file1_name file2_name = Inr (log, Some r) \<and>
         details r =
           map (\<lambda>pair. \<lparr>d_folder = folder pair,
                  is_identical = fst (snd (compare_file_pair env pair)),
                  d_differences = snd (snd (compare_file_pair env pair)),
                  d_file1 = file1 pair, d_file2 = file2 pair\<rparr>) pairs \<and>
         log = concat (map (\<lambda>pair. fst (compare_file_pair env pair)) pairs))) \<and>
   (read_lines_nc env f1 f2 = Inl e \<longrightarrow>
      compare_ext env fld ext f1 f2 = ([ProcessingError e], [], Error e ext)) \<and>
   (read_lines_nc env f1 f2 = Inr (lines1, lines2) \<and> differ_compare env lines1 lines2 = Inl e \<longrightarrow>
      compare_ext env fld ext f1 f2 = ([ProcessingError e], [], Error e ext)) \<and>
   (read_lines_nc env f1 f2 = Inr (lines1, lines2) \<and>
    differ_compare env lines1 lines2 = Inr diff \<and> analyze_differences diff = Inl e \<longrightarrow>
      compare_ext env fld ext f1 f2 = ([ProcessingError e], [], Error e ext)) \<and>
   differences_entry (Error e ext) = None \<and> status (Error e ext) = ''error'' \<and>
   (find_files env parent_dir file_exts = Inr groups \<and> groups \<noteq> [] \<longrightarrow>
      (\<exists>log r. run_nc env parent_dir file_exts = Inr (log, Some r) \<and>
         nc_details r =
           map (\<lambda>g. \<lparr>comparisons = folder_comparisons env file_exts g, fr_folder = fst g\<rparr>)
             groups))"
proof (intro conjI impI)
  assume "read_lines_txt env (file1 pair) (file2 pair) = Inl e"
  then show "compare_file_pair env pair = ([FolderError (folder pair) e], False, - 1)"
    by (intro compare_file_pair_raised) (simp add: compare_files_txt_def)
next
  assume "read_lines_txt env (file1 pair) (file2 pair) = Inr (lines1, lines2) \<and>
    differ_compare env lines1 lines2 = Inl e"
  then show "compare_file_pair env pair = ([FolderError (folder pair) e], False, - 1)"
    by (intro compare_file_pair_raised) (simp add: compare_files_txt_def)
next
  assume "read_lines_txt env (file1 pair) (file2 pair) = Inr (lines1, lines2) \<and>
    differ_compare env lines1 lines2 = Inr diff \<and> analyze_differences diff = Inl e"
  then show "compare_file_pair env pair = ([FolderError (folder pair) e], False, - 1)"
    by (intro compare_file_pair_raised) (simp add: compare_files_txt_def)
next
  assume "read_lines_txt env (file1 pair) (file2 pair) = Inr (lines1, lines2) \<and>
    differ_compare env lines1 lines2 = Inr diff \<and> analyze_differences diff = Inr ds"
  then show "compare_file_pair env pair =
        (if ds = [] then ([], True, 0) else ([], False, int (length ds)))"
    by (simp add: compare_file_pair_def compare_files_txt_def)
next
  assume "compare_file_pair env pair = (w, b, c)"
  from compare_file_pair_cases [OF this]
  show "(c = - 1 \<and> \<not> b \<and> (\<exists>e. w = [FolderError (folder pair) e])) \<or> (0 \<le> c \<and> w = [])"
    by auto
next
  assume "find_file_pairs env parent_dir file1_name file2_name = Inr pairs \<and> pairs \<noteq> []"
  then show "\<exists>log r. run_txt env parent_dir file1_name file2_name = Inr (log, Some r) \<and>
         details r =
           map (\<lambda>pair. \<lparr>d_folder = folder pair,
                  is_identical = fst (snd (compare_file_pair env pair)),
                  d_differences = snd (snd (compare_file_pair env pair)),
                  d_file1 = file1 pair, d_file2 = file2 pair\<rparr>) pairs \<and>
         log = concat (map (\<lambda>pair. fst (compare_file_pair env pair)) pairs)"
    using run_txt_continues by blast
next
  assume "read_lines_nc env f1 f2 = Inl e"
  then show "compare_ext env fld ext f1 f2 = ([ProcessingError e], [], Error e ext)"
    by (intro compare_ext_raised) (simp add: compare_files_nc_def)
next
  assume "read_lines_nc env f1 f2 = Inr (lines1, lines2) \<and> differ_compare env lines1 lines2 = Inl e"
  then show "compare_ext env fld ext f1 f2 = ([ProcessingError e], [], Error e ext)"
    by (intro compare_ext_raised) (simp add: compare_files_nc_def)
next
  assume "read_lines_nc env f1 f2 = Inr (lines1, lines2) \<and>
    differ_compare env lines1 lines2 = Inr diff \<and> analyze_differences diff = Inl e"
  then show "compare_ext env fld ext f1 f2 = ([ProcessingError e], [], Error e ext)"
    by (intro compare_ext_raised) (simp add: compare_files_nc_def)
next
  show "differences_entry (Error e ext) = None" by simp
next
  show "status (Error e ext) = ''error''" by simp
next
  assume "find_files env parent_dir file_exts = Inr groups \<and> groups \<noteq> []"
  then show "\<exists>log r. run_nc env parent_dir file_exts = Inr (log, Some r) \<and>
         nc_details r =
           map (\<lambda>g. \<lparr>comparisons = folder_comparisons env file_exts g, fr_folder = fst g\<rparr>)
             groups"
    using run_nc_continues by blast
qed

text \<open>
  In the test environment: the pair of folder \<open>c\<close> cannot be read, the aligner raises on
  the \<open>bytes\<close> lines of the pair under \<open>legacy\<close> (and on every pair in the environment
  whose aligner always raises), the classifier raises in the environment whose aligner yields an empty string,
  the pair of folder \<open>b\<close> has one difference; \<open>run\<close> on \<open>root\<close> goes through all three
  folders.
\<close>

theorem pair_exception_caught_run_continues_witness:
  "compare_file_pair test_env pair_c =
     ([FolderError ''c'' (OtherException ''IsADirectoryError'')], False, - 1) \<and>
   compare_file_pair test_env pair_legacy =
     ([FolderError ''legacy'' (OtherException ''AttributeError'')], False, - 1) \<and>
   compare_file_pair empty_record_env pair_a = ([FolderError ''a'' IndexError], False, - 1) \<and>
   compare_file_pair test_env pair_b = ([], False, 1) \<and>
   run_txt test_env ''root'' ''file1.txt'' ''file2.txt'' =
     Inr ([FolderError ''c'' (OtherException ''IsADirectoryError'')], Some test_txt_summary) \<and>
   details test_txt_summary =
     map (\<lambda>pair. \<lparr>d_folder = folder pair,
            is_identical = fst (snd (compare_file_pair test_env pair)),
            d_differences = snd (snd (compare_file_pair test_env pair)),
            d_file1 = file1 pair, d_file2 = file2 pair\<rparr>) [pair_a, pair_b, pair_c] \<and>
   compare_ext test_env ''c'' ''.txt'' ''root/c/file1.txt'' ''root/c/file2.txt'' =
     ([ProcessingError (OtherException ''IsADirectoryError'')], [],
      Error (OtherException ''IsADirectoryError'') ''.txt'') \<and>
   compare_ext raising_differ_env ''a'' ''.txt'' ''root/a/file1.txt'' ''root/a/file2.txt'' =
     ([ProcessingError (OtherException ''RecursionError'')], [],
      Error (OtherException ''RecursionError'') ''.txt'') \<and>
   compare_ext empty_record_env ''a'' ''.txt'' ''root/a/file1.txt'' ''root/a/file2.txt'' =
     ([ProcessingError IndexError], [], Error IndexError ''.txt'') \<and>
   run_nc test_env ''root'' (init_file_exts [''.NC'', ''.txt'']) =
     Inr ([ProcessingError (OtherException ''IsADirectoryError'')], Some test_nc_summary) \<and>
   nc_details test_nc_summary =
     map (\<lambda>g. \<lparr>comparisons = folder_comparisons test_env (init_file_exts [''.NC'', ''.txt'']) g,
            fr_folder = fst g\<rparr>) test_groups"
proof -
  note t = pair_exception_caught_run_continues
  let ?dir = "OtherException ''IsADirectoryError''"
  let ?x = "[CHR ''x'', CHR 0x0A]"
  let ?y = "[CHR ''y'', CHR 0x0A]"
  let ?l1 = "Bytes [0xFF, 0x61, 0x62, 0x63, 0x64, 0x0A]"
  let ?l2 = "Bytes [0xFF, 0x61, 0x62, 0x63, 0x65, 0x0A]"
  let ?exts = "init_file_exts [''.NC'', ''.txt'']"
  have h1: "read_lines_txt test_env (file1 pair_c) (file2 pair_c) = Inl ?dir"
    by code_simp
  have w1: "compare_file_pair test_env pair_c = ([FolderError (folder pair_c) ?dir], False, - 1)"
    using t [where env = test_env and pair = pair_c and e = ?dir] h1 by blast
  have h2: "read_lines_txt test_env (file1 pair_legacy) (file2 pair_legacy) = Inr ([?l1], [?l2]) \<and>
      differ_compare test_env [?l1] [?l2] = Inl (OtherException ''AttributeError'')"
    by code_simp
  have w2: "compare_file_pair test_env pair_legacy =
      ([FolderError (folder pair_legacy) (OtherException ''AttributeError'')], False, - 1)"
    using t [where env = test_env and pair = pair_legacy and e = "OtherException ''AttributeError''"
        and ?lines1.0 = "[?l1]" and ?lines2.0 = "[?l2]"] h2 by blast
  have h3: "read_lines_txt empty_record_env (file1 pair_a) (file2 pair_a) =
        Inr ([Str ?x], [Str ?x]) \<and>
      differ_compare empty_record_env [Str ?x] [Str ?x] = Inr [[]] \<and>
      analyze_differences [[]] = Inl IndexError"
    by code_simp
  have w3: "compare_file_pair empty_record_env pair_a =
      ([FolderError (folder pair_a) IndexError], False, - 1)"
    using t [where env = empty_record_env and pair = pair_a and e = IndexError
        and ?lines1.0 = "[Str ?x]" and ?lines2.0 = "[Str ?x]" and diff = "[[]]"] h3 by blast
  let ?d = "[\<lparr>type = KRemoved, line = Some 2, content = ''y''\<rparr>]"
  have h4: "read_lines_txt test_env (file1 pair_b) (file2 pair_b) =
        Inr ([Str ?x, Str ?y], [Str ?x]) \<and>
      differ_compare test_env [Str ?x, Str ?y] [Str ?x] =
        Inr [CHR '' '' # CHR '' '' # ?x, CHR ''-'' # CHR '' '' # ?y] \<and>
      analyze_differences [CHR '' '' # CHR '' '' # ?x, CHR ''-'' # CHR '' '' # ?y] = Inr ?d"
    by code_simp
  have "compare_file_pair test_env pair_b =
      (if ?d = [] then ([], True, 0) else ([], False, int (length ?d)))"
    using t [where env = test_env and pair = pair_b
        and ?lines1.0 = "[Str ?x, Str ?y]" and ?lines2.0 = "[Str ?x]"
        and diff = "[CHR '' '' # CHR '' '' # ?x, CHR ''-'' # CHR '' '' # ?y]" and ds = ?d] h4
    by blast
  then have w4: "compare_file_pair test_env pair_b = ([], False, 1)" by simp
  have h5: "find_file_pairs test_env ''root'' ''file1.txt'' ''file2.txt'' =
        Inr [pair_a, pair_b, pair_c] \<and> [pair_a, pair_b, pair_c] \<noteq> []"
    by code_simp
  have "\<exists>log r. run_txt test_env ''root'' ''file1.txt'' ''file2.txt'' = Inr (log, Some r) \<and>
         details r =
           map (\<lambda>pair. \<lparr>d_folder = folder pair,
                  is_identical = fst (snd (compare_file_pair test_env pair)),
                  d_differences = snd (snd (compare_file_pair test_env pair)),
                  d_file1 = file1 pair, d_file2 = file2 pair\<rparr>) [pair_a, pair_b, pair_c] \<and>
         log = concat (map (\<lambda>pair. fst (compare_file_pair test_env pair)) [pair_a, pair_b, pair_c])"
    using t [where env = test_env and parent_dir = "''root''" and file1_name = "''file1.txt''"
        and file2_name = "''file2.txt''" and pairs = "[pair_a, pair_b, pair_c]"] h5 by blast
  then have w5: "details test_txt_summary =
     map (\<lambda>pair. \<lparr>d_folder = folder pair,
            is_identical = fst (snd (compare_file_pair test_env pair)),
            d_differences = snd (snd (compare_file_pair test_env pair)),
            d_file1 = file1 pair, d_file2 = file2 pair\<rparr>) [pair_a, pair_b, pair_c]"
    using run_txt_test by auto
  have h6: "read_lines_nc test_env ''root/c/file1.txt'' ''root/c/file2.txt'' = Inl ?dir"
    by code_simp
  have w6: "compare_ext test_env ''c'' ''.txt'' ''root/c/file1.txt'' ''root/c/file2.txt'' =
     ([ProcessingError ?dir], [], Error ?dir ''.txt'')"
    using t [where env = test_env and ?f1.0 = "''root/c/file1.txt''"
        and ?f2.0 = "''root/c/file2.txt''" and e = ?dir and fld = "''c''" and ext = "''.txt''"] h6
    by blast
  have h7: "read_lines_nc raising_differ_env ''root/a/file1.txt'' ''root/a/file2.txt'' =
        Inr ([Str ?x], [Str ?x]) \<and>
      differ_compare raising_differ_env [Str ?x] [Str ?x] = Inl (OtherException ''RecursionError'')"
    by code_simp
  have w7: "compare_ext raising_differ_env ''a'' ''.txt'' ''root/a/file1.txt'' ''root/a/file2.txt'' =
     ([ProcessingError (OtherException ''RecursionError'')], [],
      Error (OtherException ''RecursionError'') ''.txt'')"
    using t [where env = raising_differ_env and ?f1.0 = "''root/a/file1.txt''"
        and ?f2.0 = "''root/a/file2.txt''" and e = "OtherException ''RecursionError''"
        and fld = "''a''" and ext = "''.txt''"
        and ?lines1.0 = "[Str ?x]" and ?lines2.0 = "[Str ?x]"] h7
    by blast
  have h8: "read_lines_nc empty_record_env ''root/a/file1.txt'' ''root/a/file2.txt'' =
        Inr ([Str ?x], [Str ?x]) \<and>
      differ_compare empty_record_env [Str ?x] [Str ?x] = Inr [[]] \<and>
      analyze_differences [[]] = Inl IndexError"
    by code_simp
  have w8: "compare_ext empty_record_env ''a'' ''.txt'' ''root/a/file1.txt'' ''root/a/file2.txt'' =
     ([ProcessingError IndexError], [], Error IndexError ''.txt'')"
    using t [where env = empty_record_env and ?f1.0 = "''root/a/file1.txt''"
        and ?f2.0 = "''root/a/file2.txt''" and e = IndexError
        and fld = "''a''" and ext = "''.txt''"
        and ?lines1.0 = "[Str ?x]" and ?lines2.0 = "[Str ?x]" and diff = "[[]]"] h8
    by blast
  have h9: "find_files test_env ''root'' ?exts = Inr test_groups \<and> test_groups \<noteq> []"
    by code_simp
  have "\<exists>log r. run_nc test_env ''root'' ?exts = Inr (log, Some r) \<and>
         nc_details r =
           map (\<lambda>g. \<lparr>comparisons = folder_comparisons test_env ?exts g, fr_folder = fst g\<rparr>)
             test_groups"
    using t [where env = test_env and parent_dir = "''root''" and file_exts = ?exts
        and groups = test_groups] h9 by blast
  then have w9: "nc_details test_nc_summary =
     map (\<lambda>g. \<lparr>comparisons = folder_comparisons test_env ?exts g, fr_folder = fst g\<rparr>)
       test_groups"
    using run_nc_test by auto
  have f: "folder pair_c = ''c''" "folder pair_legacy = ''legacy''" "folder pair_a = ''a''"
    by (simp_all add: pair_c_def pair_legacy_def pair_a_def)
  from w1 w2 w3 w4 w5 w6 w7 w8 w9 run_txt_test run_nc_test show ?thesis
    unfolding f by blast
qed















end
